theory Spec2Isabelle
  imports Main "HOL-Library.Word"
begin

section \<open>Decimal rendering\<close>

text \<open>
  \<^verbatim>\<open>std::to_string\<close> on an unsigned value, and \<^verbatim>\<open>snprintf(buf, sizeof buf, "%u", ...)\<close>:
  the decimal digits, most significant first, no padding.
\<close>

definition digit_char :: "nat \<Rightarrow> char" where
  "digit_char d = char_of (48 + d)"

function to_string :: "nat \<Rightarrow> string" where
  "to_string n = (if n < 10 then [digit_char n] else to_string (n div 10) @ [digit_char (n mod 10)])"
  by pat_completeness auto
termination
  by (relation "measure (\<lambda>n. n)") auto

declare to_string.simps [simp del]

section \<open>Handles and type nodes\<close>

text \<open>
  A node lives at an address of the process heap; its identity is that address.
  A type system is an object of some class: \<open>ASTContext i\<close> is the \<open>i\<close>-th instance of the
  language's AST context class (the class \<^verbatim>\<open>llvm::dyn_cast_or_null\<close> tests for),
  \<open>OtherTypeSystem i\<close> an instance of any other type-system class.
  A handle (\<^verbatim>\<open>CompilerType\<close>) pairs the owning type system with the opaque node pointer;
  either may be null.
\<close>

type_synonym addr = nat

datatype TypeSystem = ASTContext nat | OtherTypeSystem nat

datatype CompilerType =
  CompilerType (GetTypeSystem: "TypeSystem option") (GetOpaqueQualType: "addr option")

text \<open>The default-constructed handle \<^verbatim>\<open>CompilerType()\<close>.\<close>

definition CompilerType_empty :: CompilerType where
  "CompilerType_empty = CompilerType None None"

text \<open>\<^verbatim>\<open>CompilerType::IsValid\<close> and \<^verbatim>\<open>operator bool\<close>: both parts are non-null.\<close>

definition IsValid :: "CompilerType \<Rightarrow> bool" where
  "IsValid t = (GetTypeSystem t \<noteq> None \<and> GetOpaqueQualType t \<noteq> None)"

text \<open>
  \<^verbatim>\<open>llvm::dyn_cast_or_null<MotokoASTContext>(type.GetTypeSystem())\<close>: the instance when the
  type system is of the AST context class, null otherwise. The test is on the class;
  it does not compare the instance with \<^verbatim>\<open>this\<close>.
\<close>

fun dyn_cast_or_null :: "TypeSystem option \<Rightarrow> nat option" where
  "dyn_cast_or_null (Some (ASTContext i)) = Some i"
| "dyn_cast_or_null (Some (OtherTypeSystem i)) = None"
| "dyn_cast_or_null None = None"

text \<open>
  A name is a \<^verbatim>\<open>ConstString\<close>; the null and the empty name are both \<open>[]\<close>
  (\<^verbatim>\<open>IsEmpty\<close> holds of both, and every read of the characters is guarded by it).
\<close>

record Field =
  m_name :: string
  m_type :: CompilerType
  m_offset :: "64 word"

text \<open>\<^verbatim>\<open>MotokoAggregateBase\<close>: the state shared by struct, tuple, union and enum.\<close>

record AggregateBase =
  Name :: string
  m_byte_size :: "64 word"
  m_fields :: "Field list"
  m_has_discriminant :: bool
  m_template_args :: "CompilerType list"

text \<open>
  The members \<^verbatim>\<open>MotokoEnum\<close> adds. \<open>m_default\<close> is an \<^verbatim>\<open>int\<close>, \<open>-1\<close> when there is no
  default variant; \<open>m_discriminants\<close> is the \<^verbatim>\<open>unordered_map<uint64_t, int>\<close>.
  Indices of fields are kept as mathematical integers: a vector of fields is far
  shorter than \<open>2^31\<close>, so the conversions between \<^verbatim>\<open>size_t\<close> and \<^verbatim>\<open>int\<close> are exact.
\<close>

record EnumPart =
  m_discr_offset :: "32 word"
  m_discr_byte_size :: "32 word"
  m_default :: int
  m_discriminants :: "64 word \<rightharpoonup> int"

datatype MotokoType =
    MotokoBool string
  | MotokoIntegral string bool "64 word" bool
  | MotokoCLikeEnum string CompilerType "32 word \<rightharpoonup> string"
  | MotokoFloat string "64 word"
  | MotokoPointer string CompilerType "64 word"
  | MotokoArray string "64 word" CompilerType
  | MotokoTuple AggregateBase
  | MotokoStruct AggregateBase
  | MotokoUnion AggregateBase
  | MotokoEnum AggregateBase EnumPart
  | MotokoFunction string "64 word" CompilerType "CompilerType list" "CompilerType list"
  | MotokoTypedef string CompilerType

type_synonym heap = "addr \<rightharpoonup> MotokoType"

text \<open>
  What the C++ leaves undefined is a value of the model: a null or stray pointer that
  is dereferenced, \<^verbatim>\<open>erase(begin())\<close> on an empty vector, a range-for whose vector is
  changed under it, \<^verbatim>\<open>*\<close> on an empty \<^verbatim>\<open>Optional\<close>. A call that leaves this code for
  another type system is \<open>ForeignTypeSystem\<close>; \<open>OutOfFuel\<close> is a recursion that has
  not returned within the given depth.
\<close>

datatype fault =
    NullDereference
  | InvalidPointer
  | EraseFromEmptyVector
  | IteratorInvalidated
  | EmptyOptional
  | ForeignTypeSystem
  | OutOfFuel

text \<open>\<^verbatim>\<open>static_cast<MotokoType *>(p)\<close> followed by a member access.\<close>

definition deref :: "heap \<Rightarrow> addr option \<Rightarrow> fault + MotokoType" where
  "deref h p =
     (case p of
        None \<Rightarrow> Inl NullDereference
      | Some a \<Rightarrow> (case h a of None \<Rightarrow> Inl InvalidPointer | Some t \<Rightarrow> Inr t))"

subsection \<open>The virtual casts\<close>

fun MotokoType_Name :: "MotokoType \<Rightarrow> string" where
  "MotokoType_Name (MotokoBool n) = n"
| "MotokoType_Name (MotokoIntegral n _ _ _) = n"
| "MotokoType_Name (MotokoCLikeEnum n _ _) = n"
| "MotokoType_Name (MotokoFloat n _) = n"
| "MotokoType_Name (MotokoPointer n _ _) = n"
| "MotokoType_Name (MotokoArray n _ _) = n"
| "MotokoType_Name (MotokoTuple a) = Name a"
| "MotokoType_Name (MotokoStruct a) = Name a"
| "MotokoType_Name (MotokoUnion a) = Name a"
| "MotokoType_Name (MotokoEnum a _) = Name a"
| "MotokoType_Name (MotokoFunction n _ _ _ _) = n"
| "MotokoType_Name (MotokoTypedef n _) = n"

fun AsAggregate :: "MotokoType \<Rightarrow> AggregateBase option" where
  "AsAggregate (MotokoTuple a) = Some a"
| "AsAggregate (MotokoStruct a) = Some a"
| "AsAggregate (MotokoUnion a) = Some a"
| "AsAggregate (MotokoEnum a _) = Some a"
| "AsAggregate _ = None"

fun AsTuple :: "MotokoType \<Rightarrow> AggregateBase option" where
  "AsTuple (MotokoTuple a) = Some a"
| "AsTuple _ = None"

fun AsEnum :: "MotokoType \<Rightarrow> (AggregateBase \<times> EnumPart) option" where
  "AsEnum (MotokoEnum a e) = Some (a, e)"
| "AsEnum _ = None"

fun AsFunction :: "MotokoType \<Rightarrow> bool" where
  "AsFunction (MotokoFunction _ _ _ _ _) = True"
| "AsFunction _ = False"

text \<open>Writing the aggregate part of a node back (the node is updated in place).\<close>

fun with_aggregate :: "MotokoType \<Rightarrow> AggregateBase \<Rightarrow> MotokoType" where
  "with_aggregate (MotokoTuple _) a = MotokoTuple a"
| "with_aggregate (MotokoStruct _) a = MotokoStruct a"
| "with_aggregate (MotokoUnion _) a = MotokoUnion a"
| "with_aggregate (MotokoEnum _ e) a = MotokoEnum a e"
| "with_aggregate t _ = t"

definition FieldCount :: "AggregateBase \<Rightarrow> nat" where
  "FieldCount a = length (m_fields a)"

text \<open>\<^verbatim>\<open>FieldAt\<close>: null when the index is not below the size; the index is a \<^verbatim>\<open>size_t\<close>,
  so a negative \<^verbatim>\<open>int\<close> passed to it is far out of range.\<close>

definition FieldAt :: "AggregateBase \<Rightarrow> int \<Rightarrow> Field option" where
  "FieldAt a idx =
     (if 0 \<le> idx \<and> nat idx < length (m_fields a) then Some (m_fields a ! nat idx) else None)"

section \<open>The registry\<close>

text \<open>
  The heap and the next free address. \<^verbatim>\<open>CacheType\<close> takes ownership of a new node and
  returns the handle bound to \<^verbatim>\<open>this\<close>; the set \<^verbatim>\<open>m_types\<close> only keeps the nodes alive.
\<close>

record world =
  nodes :: heap
  brk :: addr

definition CacheType :: "nat \<Rightarrow> world \<Rightarrow> MotokoType \<Rightarrow> CompilerType \<times> world" where
  "CacheType this w new_type =
     (CompilerType (Some (ASTContext this)) (Some (brk w)),
      w\<lparr>nodes := (nodes w)(brk w \<mapsto> new_type), brk := Suc (brk w)\<rparr>)"

definition new_aggregate :: "string \<Rightarrow> 64 word \<Rightarrow> bool \<Rightarrow> AggregateBase" where
  "new_aggregate name byte_size has_discriminant =
     \<lparr>Name = name, m_byte_size = byte_size, m_fields = [],
      m_has_discriminant = has_discriminant, m_template_args = []\<rparr>"

definition CreateBoolType :: "nat \<Rightarrow> world \<Rightarrow> string \<Rightarrow> CompilerType \<times> world" where
  "CreateBoolType this w name = CacheType this w (MotokoBool name)"

definition CreateIntegralType ::
  "nat \<Rightarrow> world \<Rightarrow> string \<Rightarrow> bool \<Rightarrow> 64 word \<Rightarrow> bool \<Rightarrow> CompilerType \<times> world" where
  "CreateIntegralType this w name is_signed byte_size is_char_type =
     CacheType this w (MotokoIntegral name is_signed byte_size is_char_type)"

definition CreateFloatType :: "nat \<Rightarrow> world \<Rightarrow> string \<Rightarrow> 64 word \<Rightarrow> CompilerType \<times> world" where
  "CreateFloatType this w name byte_size = CacheType this w (MotokoFloat name byte_size)"

definition CreateTypedefType ::
  "nat \<Rightarrow> world \<Rightarrow> string \<Rightarrow> CompilerType \<Rightarrow> CompilerType \<times> world" where
  "CreateTypedefType this w name impl = CacheType this w (MotokoTypedef name impl)"

text \<open>The byte sizes of the aggregate constructors arrive as \<^verbatim>\<open>uint32_t\<close> and widen.\<close>

definition CreateStructType ::
  "nat \<Rightarrow> world \<Rightarrow> string \<Rightarrow> 32 word \<Rightarrow> bool \<Rightarrow> CompilerType \<times> world" where
  "CreateStructType this w name byte_size has_discriminant =
     CacheType this w (MotokoStruct (new_aggregate name (ucast byte_size) has_discriminant))"

definition CreateTupleType ::
  "nat \<Rightarrow> world \<Rightarrow> string \<Rightarrow> 32 word \<Rightarrow> bool \<Rightarrow> CompilerType \<times> world" where
  "CreateTupleType this w name byte_size has_discriminant =
     CacheType this w (MotokoTuple (new_aggregate name (ucast byte_size) has_discriminant))"

definition CreateUnionType :: "nat \<Rightarrow> world \<Rightarrow> string \<Rightarrow> 32 word \<Rightarrow> CompilerType \<times> world" where
  "CreateUnionType this w name byte_size =
     CacheType this w (MotokoUnion (new_aggregate name (ucast byte_size) False))"

definition CreatePointerType ::
  "nat \<Rightarrow> world \<Rightarrow> string \<Rightarrow> CompilerType \<Rightarrow> 32 word \<Rightarrow> CompilerType \<times> world" where
  "CreatePointerType this w name pointee_type byte_size =
     CacheType this w (MotokoPointer name pointee_type (ucast byte_size))"

definition CreateVoidType :: "nat \<Rightarrow> world \<Rightarrow> CompilerType \<times> world" where
  "CreateVoidType this w = CacheType this w (MotokoTuple (new_aggregate ''()'' 0 False))"

definition CreateEnumType ::
  "nat \<Rightarrow> world \<Rightarrow> string \<Rightarrow> 64 word \<Rightarrow> 32 word \<Rightarrow> 32 word \<Rightarrow> CompilerType \<times> world" where
  "CreateEnumType this w name byte_size discr_offset discr_byte_size =
     CacheType this w
       (MotokoEnum (new_aggregate name byte_size False)
          \<lparr>m_discr_offset = discr_offset, m_discr_byte_size = discr_byte_size,
           m_default = - 1, m_discriminants = Map.empty\<rparr>)"

subsection \<open>Adding fields\<close>

definition AddField :: "AggregateBase \<Rightarrow> string \<Rightarrow> CompilerType \<Rightarrow> 64 word \<Rightarrow> AggregateBase" where
  "AddField a name type offset =
     a\<lparr>m_fields := m_fields a @ [\<lparr>m_name = name, m_type = type, m_offset = offset\<rparr>]\<rparr>"

text \<open>\<^verbatim>\<open>MotokoEnum::RecordDiscriminant\<close>, for the field added last.\<close>

definition RecordDiscriminant :: "AggregateBase \<Rightarrow> EnumPart \<Rightarrow> bool \<Rightarrow> 64 word \<Rightarrow> EnumPart" where
  "RecordDiscriminant a e is_default discriminant =
     (let v = int (FieldCount a) - 1 in
      if is_default then e\<lparr>m_default := v\<rparr>
      else e\<lparr>m_discriminants := (m_discriminants e)(discriminant \<mapsto> v)\<rparr>)"

text \<open>
  \<^verbatim>\<open>MotokoASTContext::AddFieldToStruct\<close>. Nothing happens on an invalid handle, on a handle
  of another type-system class and on a node that is not an aggregate.
\<close>

definition AddFieldToStruct ::
  "nat \<Rightarrow> heap \<Rightarrow> CompilerType \<Rightarrow> string \<Rightarrow> CompilerType \<Rightarrow> 32 word \<Rightarrow> bool \<Rightarrow> 64 word
     \<Rightarrow> fault + heap" where
  "AddFieldToStruct this h struct_type name field_type byte_offset is_default discriminant =
     (if \<not> IsValid struct_type then Inr h
      else case dyn_cast_or_null (GetTypeSystem struct_type) of
        None \<Rightarrow> Inr h
      | Some ast \<Rightarrow>
         (case deref h (GetOpaqueQualType struct_type) of
            Inl f \<Rightarrow> Inl f
          | Inr type \<Rightarrow>
             (case AsAggregate type of
                None \<Rightarrow> Inr h
              | Some a \<Rightarrow>
                 (let a' = AddField a name field_type (ucast byte_offset);
                      type' = (case type of
                                 MotokoEnum _ e \<Rightarrow>
                                   MotokoEnum a' (RecordDiscriminant a' e is_default discriminant)
                               | _ \<Rightarrow> with_aggregate type a')
                  in Inr (h(the (GetOpaqueQualType struct_type) \<mapsto> type'))))))"

subsection \<open>Looking a variant up\<close>

text \<open>\<^verbatim>\<open>MotokoEnum::FindEnumVariant\<close>; \<^verbatim>\<open>FieldAt(idx)->m_type\<close> dereferences the result
  of \<^verbatim>\<open>FieldAt\<close> unchecked.\<close>

definition MotokoEnum_FindEnumVariant ::
  "AggregateBase \<Rightarrow> EnumPart \<Rightarrow> 64 word \<Rightarrow> fault + CompilerType" where
  "MotokoEnum_FindEnumVariant a e discriminant =
     (case m_discriminants e discriminant of
        Some idx \<Rightarrow>
          (case FieldAt a idx of None \<Rightarrow> Inl NullDereference | Some f \<Rightarrow> Inr (m_type f))
      | None \<Rightarrow>
          (if m_default e = - 1 then Inr CompilerType_empty
           else case FieldAt a (m_default e) of
                  None \<Rightarrow> Inl NullDereference
                | Some f \<Rightarrow> Inr (m_type f)))"

definition FindEnumVariant :: "nat \<Rightarrow> heap \<Rightarrow> CompilerType \<Rightarrow> 64 word \<Rightarrow> fault + CompilerType" where
  "FindEnumVariant this h type discriminant =
     (if \<not> IsValid type then Inr CompilerType_empty
      else case dyn_cast_or_null (GetTypeSystem type) of
        None \<Rightarrow> Inr CompilerType_empty
      | Some ast \<Rightarrow>
         (case deref h (GetOpaqueQualType type) of
            Inl f \<Rightarrow> Inl f
          | Inr rtype \<Rightarrow>
             (case AsEnum rtype of
                Some (a, e) \<Rightarrow> MotokoEnum_FindEnumVariant a e discriminant
              | None \<Rightarrow> Inr CompilerType_empty)))"

definition GetEnumDiscriminantLocation ::
  "nat \<Rightarrow> heap \<Rightarrow> CompilerType \<Rightarrow> fault + (64 word \<times> 64 word) option" where
  "GetEnumDiscriminantLocation this h type =
     (if \<not> IsValid type then Inr None
      else case dyn_cast_or_null (GetTypeSystem type) of
        None \<Rightarrow> Inr None
      | Some ast \<Rightarrow>
         (case deref h (GetOpaqueQualType type) of
            Inl f \<Rightarrow> Inl f
          | Inr rtype \<Rightarrow>
             (case AsEnum rtype of
                Some (a, e) \<Rightarrow> Inr (Some (ucast (m_discr_offset e), ucast (m_discr_byte_size e)))
              | None \<Rightarrow> Inr None)))"

subsection \<open>A construction session\<close>

text \<open>
  The debug-info reader fills an aggregate by a sequence of \<^verbatim>\<open>AddFieldToStruct\<close> calls on
  one handle. \<open>AddFieldCall\<close> holds the arguments of one call.
\<close>

record AddFieldCall =
  af_name :: string
  af_type :: CompilerType
  af_offset :: "32 word"
  af_is_default :: bool
  af_discriminant :: "64 word"

fun AddFields :: "nat \<Rightarrow> heap \<Rightarrow> CompilerType \<Rightarrow> AddFieldCall list \<Rightarrow> fault + heap" where
  "AddFields this h t [] = Inr h"
| "AddFields this h t (c # cs) =
     (case AddFieldToStruct this h t (af_name c) (af_type c) (af_offset c)
             (af_is_default c) (af_discriminant c) of
        Inl f \<Rightarrow> Inl f
      | Inr h' \<Rightarrow> AddFields this h' t cs)"

text \<open>
  What a session of calls records, read off the calls alone: the payload of the call that
  last gave \<open>d\<close> as an explicit discriminant, and the payload of the call that last declared
  itself the default variant.
\<close>

definition recorded_variant :: "AddFieldCall list \<Rightarrow> 64 word \<Rightarrow> CompilerType option" where
  "recorded_variant cs d =
     map_option af_type (List.find (\<lambda>c. \<not> af_is_default c \<and> af_discriminant c = d) (rev cs))"

definition default_variant :: "AddFieldCall list \<Rightarrow> CompilerType option" where
  "default_variant cs = map_option af_type (List.find af_is_default (rev cs))"

definition field_of :: "AddFieldCall \<Rightarrow> Field" where
  "field_of c = \<lparr>m_name = af_name c, m_type = af_type c, m_offset = ucast (af_offset c)\<rparr>"

text \<open>The bookkeeping of an enum node agrees with the calls that built it.\<close>

definition enum_tracks :: "AggregateBase \<Rightarrow> EnumPart \<Rightarrow> AddFieldCall list \<Rightarrow> bool" where
  "enum_tracks a e cs \<longleftrightarrow>
     m_fields a = map field_of cs \<and>
     (\<forall>d. case m_discriminants e d of
            None \<Rightarrow> recorded_variant cs d = None
          | Some i \<Rightarrow> 0 \<le> i \<and> nat i < length cs \<and>
                     recorded_variant cs d = Some (af_type (cs ! nat i))) \<and>
     (if m_default e = - 1 then default_variant cs = None
      else 0 \<le> m_default e \<and> nat (m_default e) < length cs \<and>
           default_variant cs = Some (af_type (cs ! nat (m_default e))))"

subsection \<open>The other operations on a handle\<close>

definition IsTupleType :: "nat \<Rightarrow> heap \<Rightarrow> CompilerType \<Rightarrow> fault + bool" where
  "IsTupleType this h type =
     (if \<not> IsValid type then Inr False
      else case dyn_cast_or_null (GetTypeSystem type) of
        None \<Rightarrow> Inr False
      | Some ast \<Rightarrow>
         (case deref h (GetOpaqueQualType type) of
            Inl f \<Rightarrow> Inl f
          | Inr rtype \<Rightarrow> Inr (AsTuple rtype \<noteq> None)))"

definition TypeHasDiscriminant :: "nat \<Rightarrow> heap \<Rightarrow> CompilerType \<Rightarrow> fault + bool" where
  "TypeHasDiscriminant this h type =
     (if \<not> IsValid type then Inr False
      else case dyn_cast_or_null (GetTypeSystem type) of
        None \<Rightarrow> Inr False
      | Some ast \<Rightarrow>
         (case deref h (GetOpaqueQualType type) of
            Inl f \<Rightarrow> Inl f
          | Inr rtype \<Rightarrow>
             (case AsAggregate rtype of
                None \<Rightarrow> Inr False
              | Some a \<Rightarrow> Inr (m_has_discriminant a))))"

definition AddTemplateParameter :: "nat \<Rightarrow> heap \<Rightarrow> CompilerType \<Rightarrow> CompilerType \<Rightarrow> fault + heap" where
  "AddTemplateParameter this h type param =
     (if \<not> IsValid type then Inr h
      else case dyn_cast_or_null (GetTypeSystem type) of
        None \<Rightarrow> Inr h
      | Some ast \<Rightarrow>
         (case deref h (GetOpaqueQualType type) of
            Inl f \<Rightarrow> Inl f
          | Inr t \<Rightarrow>
             (case AsAggregate t of
                None \<Rightarrow> Inr h
              | Some a \<Rightarrow>
                  Inr (h(the (GetOpaqueQualType type) \<mapsto>
                         with_aggregate t (a\<lparr>m_template_args := m_template_args a @ [param]\<rparr>))))))"

section \<open>Structural queries\<close>

subsection \<open>Void\<close>

text \<open>\<^verbatim>\<open>MotokoASTContext::IsVoidType\<close>.\<close>

definition IsVoidType :: "heap \<Rightarrow> addr option \<Rightarrow> fault + bool" where
  "IsVoidType h type =
     (case type of
        None \<Rightarrow> Inr False
      | Some p \<Rightarrow>
         (case h p of
            None \<Rightarrow> Inl InvalidPointer
          | Some t \<Rightarrow>
             (case AsTuple t of
                None \<Rightarrow> Inr False
              | Some tuple \<Rightarrow>
                  Inr (Name tuple \<noteq> [] \<and> Name tuple = ''()'' \<and> FieldCount tuple = 0))))"

text \<open>\<^verbatim>\<open>MotokoType::IsAggregateType\<close> (arrays and the four aggregates) and
  \<^verbatim>\<open>MotokoASTContext::IsAggregateType\<close>, which casts without a null test.\<close>

fun MotokoType_IsAggregateType :: "MotokoType \<Rightarrow> bool" where
  "MotokoType_IsAggregateType (MotokoArray _ _ _) = True"
| "MotokoType_IsAggregateType t = (AsAggregate t \<noteq> None)"

definition IsAggregateType :: "heap \<Rightarrow> addr option \<Rightarrow> fault + bool" where
  "IsAggregateType h type =
     (case deref h type of Inl f \<Rightarrow> Inl f | Inr t \<Rightarrow> Inr (MotokoType_IsAggregateType t))"

subsection \<open>Queries through a handle\<close>

text \<open>
  Modelled from the spec: the forwarding methods of the handle class \<^verbatim>\<open>CompilerType\<close>
  belong to the host debugger and are not among the sources. A handle is the opaque pair
  of section 3; a query on an invalid handle gives the empty result (section 7,
  structural mismatch) and a valid one is answered by the owning type system. Where
  that is not an AST context of this code, the answer is outside the model.
\<close>

definition CompilerType_IsVoidType :: "heap \<Rightarrow> CompilerType \<Rightarrow> fault + bool" where
  "CompilerType_IsVoidType h t =
     (if \<not> IsValid t then Inr False
      else case dyn_cast_or_null (GetTypeSystem t) of
             None \<Rightarrow> Inl ForeignTypeSystem
           | Some ast \<Rightarrow> IsVoidType h (GetOpaqueQualType t))"

definition CompilerType_IsAggregateType :: "heap \<Rightarrow> CompilerType \<Rightarrow> fault + bool" where
  "CompilerType_IsAggregateType h t =
     (if \<not> IsValid t then Inr False
      else case dyn_cast_or_null (GetTypeSystem t) of
             None \<Rightarrow> Inl ForeignTypeSystem
           | Some ast \<Rightarrow> IsAggregateType h (GetOpaqueQualType t))"

text \<open>\<^verbatim>\<open>MotokoASTContext::GetCompleteType\<close> is \<^verbatim>\<open>bool(type)\<close>.\<close>

definition CompilerType_GetCompleteType :: "CompilerType \<Rightarrow> fault + bool" where
  "CompilerType_GetCompleteType t =
     (if \<not> IsValid t then Inr False
      else case dyn_cast_or_null (GetTypeSystem t) of
             None \<Rightarrow> Inl ForeignTypeSystem
           | Some ast \<Rightarrow> Inr (GetOpaqueQualType t \<noteq> None))"

text \<open>The primitive nodes of the data model: booleans, integers and floats.\<close>

fun Primitive :: "MotokoType \<Rightarrow> bool" where
  "Primitive (MotokoBool _) = True"
| "Primitive (MotokoIntegral _ _ _ _) = True"
| "Primitive (MotokoFloat _ _) = True"
| "Primitive _ = False"

subsection \<open>Number of children\<close>

text \<open>
  \<^verbatim>\<open>MotokoASTContext::GetNumChildren\<close>. The result is a \<^verbatim>\<open>uint32_t\<close>: the \<^verbatim>\<open>uint64_t\<close>
  length of an array and the \<^verbatim>\<open>size_t\<close> field count are cut to 32 bits by the assignment.
  The call on the pointee and on the aliased type goes through the handle; the first
  argument bounds the depth of these calls.
\<close>

fun GetNumChildren :: "nat \<Rightarrow> heap \<Rightarrow> addr option \<Rightarrow> fault + 32 word"
  and CompilerType_GetNumChildren :: "nat \<Rightarrow> heap \<Rightarrow> CompilerType \<Rightarrow> fault + 32 word" where
  "GetNumChildren 0 h type = Inl OutOfFuel"
| "GetNumChildren (Suc n) h None = Inr 0"
| "GetNumChildren (Suc n) h (Some p) =
     (case h p of
        None \<Rightarrow> Inl InvalidPointer
      | Some t \<Rightarrow>
         (case t of
            MotokoPointer _ pointee _ \<Rightarrow>
              (case CompilerType_GetNumChildren n h pointee of
                 Inl f \<Rightarrow> Inl f
               | Inr result \<Rightarrow> Inr (if result = 0 then 1 else result))
          | MotokoArray _ len _ \<Rightarrow> Inr (ucast len)
          | MotokoTypedef _ underlying \<Rightarrow> CompilerType_GetNumChildren n h underlying
          | _ \<Rightarrow>
              (case AsAggregate t of
                 Some agg \<Rightarrow> Inr (word_of_nat (FieldCount agg))
               | None \<Rightarrow> Inr 0)))"
| "CompilerType_GetNumChildren n h t =
     (if \<not> IsValid t then Inr 0
      else case dyn_cast_or_null (GetTypeSystem t) of
             None \<Rightarrow> Inl ForeignTypeSystem
           | Some ast \<Rightarrow> GetNumChildren n h (GetOpaqueQualType t))"

subsection \<open>Byte size\<close>

text \<open>
  The virtual \<^verbatim>\<open>ByteSize\<close>. An array and a typedef ask the handle of their element or
  aliased type and dereference the \<^verbatim>\<open>Optional\<close> they get without a test.
\<close>

text \<open>
  Modelled from the spec: \<^verbatim>\<open>CompilerType::GetByteSize\<close> is the host debugger's and not
  among the sources. It forwards to \<^verbatim>\<open>GetBitSize\<close> of the owning type system (section 4.2:
  the bit width is \<open>byteSize * 8\<close>) and rounds the bits up to bytes; an invalid handle has
  no size.
\<close>

fun ByteSize :: "nat \<Rightarrow> heap \<Rightarrow> MotokoType \<Rightarrow> fault + 64 word"
  and CompilerType_GetByteSize :: "nat \<Rightarrow> heap \<Rightarrow> CompilerType \<Rightarrow> fault + 64 word option" where
  "ByteSize 0 h t = Inl OutOfFuel"
| "ByteSize (Suc n) h t =
     (case t of
        MotokoBool _ \<Rightarrow> Inr 1
      | MotokoIntegral _ _ byte_size _ \<Rightarrow> Inr byte_size
      | MotokoCLikeEnum _ _ _ \<Rightarrow> Inr 4
      | MotokoFloat _ byte_size \<Rightarrow> Inr byte_size
      | MotokoPointer _ _ byte_size \<Rightarrow> Inr byte_size
      | MotokoArray _ len elem \<Rightarrow>
          (case CompilerType_GetByteSize n h elem of
             Inl f \<Rightarrow> Inl f
           | Inr None \<Rightarrow> Inl EmptyOptional
           | Inr (Some s) \<Rightarrow> Inr (s * len))
      | MotokoTuple a \<Rightarrow> Inr (m_byte_size a)
      | MotokoStruct a \<Rightarrow> Inr (m_byte_size a)
      | MotokoUnion a \<Rightarrow> Inr (m_byte_size a)
      | MotokoEnum a _ \<Rightarrow> Inr (m_byte_size a)
      | MotokoFunction _ byte_size _ _ _ \<Rightarrow> Inr byte_size
      | MotokoTypedef _ underlying \<Rightarrow>
          (case CompilerType_GetByteSize n h underlying of
             Inl f \<Rightarrow> Inl f
           | Inr None \<Rightarrow> Inl EmptyOptional
           | Inr (Some s) \<Rightarrow> Inr s))"
| "CompilerType_GetByteSize n h t =
     (if \<not> IsValid t then Inr None
      else case dyn_cast_or_null (GetTypeSystem t) of
             None \<Rightarrow> Inl ForeignTypeSystem
           | Some ast \<Rightarrow>
              (case deref h (GetOpaqueQualType t) of
                 Inl f \<Rightarrow> Inl f
               | Inr node \<Rightarrow>
                  (case ByteSize n h node of
                     Inl f \<Rightarrow> Inl f
                   | Inr bs \<Rightarrow> Inr (Some ((bs * 8 + 7) div 8)))))"

subsection \<open>Fields and children by index\<close>

text \<open>
  \<^verbatim>\<open>MotokoASTContext::GetFieldAtIndex\<close>: the field's type, the name (left as the caller
  had it when there is no such field) and the bit offset.
\<close>

fun GetFieldAtIndex ::
  "nat \<Rightarrow> heap \<Rightarrow> addr option \<Rightarrow> nat \<Rightarrow> string \<Rightarrow> fault + (CompilerType \<times> string \<times> 64 word)" where
  "GetFieldAtIndex 0 h type idx name = Inl OutOfFuel"
| "GetFieldAtIndex (Suc n) h None idx name = Inr (CompilerType_empty, name, 0)"
| "GetFieldAtIndex (Suc n) h (Some p) idx name =
     (case h p of
        None \<Rightarrow> Inl InvalidPointer
      | Some t \<Rightarrow>
         (case t of
            MotokoTypedef _ underlying \<Rightarrow>
              (if \<not> IsValid underlying then Inr (CompilerType_empty, name, 0)
               else case dyn_cast_or_null (GetTypeSystem underlying) of
                      None \<Rightarrow> Inl ForeignTypeSystem
                    | Some ast \<Rightarrow> GetFieldAtIndex n h (GetOpaqueQualType underlying) idx name)
          | _ \<Rightarrow>
              (case AsAggregate t of
                 None \<Rightarrow> Inr (CompilerType_empty, name, 0)
               | Some s \<Rightarrow>
                  (case FieldAt s (int idx) of
                     None \<Rightarrow> Inr (CompilerType_empty, name, 0)
                   | Some field \<Rightarrow> Inr (m_type field, m_name field, m_offset field * 8)))))"

text \<open>The reference parameters of \<^verbatim>\<open>GetChildCompilerTypeAtIndex\<close>; the \<^verbatim>\<open>int32_t\<close> offset is
  kept as its 32 bits.\<close>

record ChildInfo =
  child_name :: string
  child_byte_size :: "32 word"
  child_byte_offset :: "32 word"
  child_bitfield_bit_size :: "32 word"
  child_bitfield_bit_offset :: "32 word"
  child_is_base_class :: bool
  child_is_deref_of_parent :: bool
  language_flags :: "64 word"

definition ChildInfo_cleared :: ChildInfo where
  "ChildInfo_cleared =
     \<lparr>child_name = [], child_byte_size = 0, child_byte_offset = 0,
      child_bitfield_bit_size = 0, child_bitfield_bit_offset = 0,
      child_is_base_class = False, child_is_deref_of_parent = False, language_flags = 0\<rparr>"

text \<open>
  \<^verbatim>\<open>MotokoASTContext::GetChildCompilerTypeAtIndex\<close>. \<open>parent_name\<close> is the name of the
  value object when there is one. The forwarding through a handle returns the empty
  handle on an invalid one and leaves the reference parameters alone.
\<close>

fun GetChildCompilerTypeAtIndex ::
    "nat \<Rightarrow> heap \<Rightarrow> addr option \<Rightarrow> nat \<Rightarrow> bool \<Rightarrow> bool \<Rightarrow> string option
       \<Rightarrow> fault + (CompilerType \<times> ChildInfo)"
  and CompilerType_GetChildCompilerTypeAtIndex ::
    "nat \<Rightarrow> heap \<Rightarrow> CompilerType \<Rightarrow> nat \<Rightarrow> bool \<Rightarrow> bool \<Rightarrow> string option \<Rightarrow> ChildInfo
       \<Rightarrow> fault + (CompilerType \<times> ChildInfo)" where
  "GetChildCompilerTypeAtIndex 0 h type idx transparent_pointers ignore_array_bounds parent_name =
     Inl OutOfFuel"
| "GetChildCompilerTypeAtIndex (Suc n) h None idx transparent_pointers ignore_array_bounds
       parent_name =
     Inr (CompilerType_empty, ChildInfo_cleared)"
| "GetChildCompilerTypeAtIndex (Suc n) h (Some p) idx transparent_pointers ignore_array_bounds
       parent_name =
     (case h p of
        None \<Rightarrow> Inl InvalidPointer
      | Some t \<Rightarrow>
         (if AsAggregate t \<noteq> None then
            (case GetFieldAtIndex (Suc n) h (Some p) idx [] of
               Inl f \<Rightarrow> Inl f
             | Inr (ret, name, bit_offset) \<Rightarrow>
                (case CompilerType_GetByteSize n h ret of
                   Inl f \<Rightarrow> Inl f
                 | Inr None \<Rightarrow> Inl EmptyOptional
                 | Inr (Some sz) \<Rightarrow>
                     Inr (ret, ChildInfo_cleared
                            \<lparr>child_name := name, child_byte_size := ucast sz,
                             child_byte_offset := ucast (bit_offset div 8)\<rparr>)))
          else case t of
            MotokoPointer _ pointee _ \<Rightarrow>
              (if \<not> IsValid pointee then Inr (CompilerType_empty, ChildInfo_cleared)
               else case CompilerType_IsVoidType h pointee of
                 Inl f \<Rightarrow> Inl f
               | Inr True \<Rightarrow> Inr (CompilerType_empty, ChildInfo_cleared)
               | Inr False \<Rightarrow>
                  (case (if transparent_pointers then CompilerType_IsAggregateType h pointee
                         else Inr False) of
                     Inl f \<Rightarrow> Inl f
                   | Inr True \<Rightarrow>
                      (case CompilerType_GetChildCompilerTypeAtIndex n h pointee idx
                              transparent_pointers ignore_array_bounds parent_name
                              ChildInfo_cleared of
                         Inl f \<Rightarrow> Inl f
                       | Inr (ret, out) \<Rightarrow> Inr (ret, out\<lparr>child_is_deref_of_parent := False\<rparr>))
                   | Inr False \<Rightarrow>
                      (let out = ChildInfo_cleared
                             \<lparr>child_is_deref_of_parent := True,
                              child_name := (case parent_name of
                                               None \<Rightarrow> []
                                             | Some nm \<Rightarrow> CHR ''*'' # nm)\<rparr>
                       in if idx \<noteq> 0 then Inr (CompilerType_empty, out)
                          else case CompilerType_GetCompleteType pointee of
                            Inl f \<Rightarrow> Inl f
                          | Inr False \<Rightarrow> Inr (CompilerType_empty, out)
                          | Inr True \<Rightarrow>
                             (case CompilerType_GetByteSize n h pointee of
                                Inl f \<Rightarrow> Inl f
                              | Inr None \<Rightarrow> Inl EmptyOptional
                              | Inr (Some sz) \<Rightarrow>
                                  Inr (pointee, out\<lparr>child_byte_size := ucast sz,
                                                    child_byte_offset := 0\<rparr>)))))
          | MotokoArray _ len element_type \<Rightarrow>
              (if ignore_array_bounds \<or> idx < unat len then
                 (case CompilerType_GetCompleteType element_type of
                    Inl f \<Rightarrow> Inl f
                  | Inr False \<Rightarrow> Inr (CompilerType_empty, ChildInfo_cleared)
                  | Inr True \<Rightarrow>
                     (case CompilerType_GetByteSize n h element_type of
                        Inl f \<Rightarrow> Inl f
                      | Inr None \<Rightarrow> Inl EmptyOptional
                      | Inr (Some sz) \<Rightarrow>
                          Inr (element_type, ChildInfo_cleared
                                 \<lparr>child_name := ''['' @ to_string idx @ '']'',
                                  child_byte_size := ucast sz,
                                  child_byte_offset := word_of_nat idx * ucast sz\<rparr>)))
               else Inr (CompilerType_empty, ChildInfo_cleared))
          | MotokoTypedef _ underlying \<Rightarrow>
              CompilerType_GetChildCompilerTypeAtIndex n h underlying idx transparent_pointers
                ignore_array_bounds parent_name ChildInfo_cleared
          | _ \<Rightarrow> Inr (CompilerType_empty, ChildInfo_cleared)))"
| "CompilerType_GetChildCompilerTypeAtIndex n h t idx transparent_pointers ignore_array_bounds
       parent_name out =
     (if \<not> IsValid t then Inr (CompilerType_empty, out)
      else case dyn_cast_or_null (GetTypeSystem t) of
             None \<Rightarrow> Inl ForeignTypeSystem
           | Some ast \<Rightarrow>
               GetChildCompilerTypeAtIndex n h (GetOpaqueQualType t) idx transparent_pointers
                 ignore_array_bounds parent_name)"

section \<open>Finalization\<close>

text \<open>
  \<^verbatim>\<open>MotokoAggregateBase::DropDiscriminant\<close>: with the flag set, clear it and erase the
  first field. \<^verbatim>\<open>m_fields.erase(m_fields.begin())\<close> on an empty vector is undefined.
\<close>

definition AggregateBase_DropDiscriminant :: "AggregateBase \<Rightarrow> fault + AggregateBase" where
  "AggregateBase_DropDiscriminant a =
     (if m_has_discriminant a then
        (case m_fields a of
           [] \<Rightarrow> Inl EraseFromEmptyVector
         | f # fs \<Rightarrow> Inr (a\<lparr>m_has_discriminant := False, m_fields := fs\<rparr>))
      else Inr a)"

text \<open>The loop of \<^verbatim>\<open>MotokoTuple::DropDiscriminant\<close>: field \<open>i\<close> is named by the digits of \<open>i\<close>.\<close>

definition rename_fields :: "Field list \<Rightarrow> Field list" where
  "rename_fields fs = map (\<lambda>(i, f). f\<lparr>m_name := to_string i\<rparr>) (enumerate 0 fs)"

definition MotokoTuple_DropDiscriminant :: "AggregateBase \<Rightarrow> fault + AggregateBase" where
  "MotokoTuple_DropDiscriminant a =
     (case AggregateBase_DropDiscriminant a of
        Inl f \<Rightarrow> Inl f
      | Inr a' \<Rightarrow> Inr (a'\<lparr>m_fields := rename_fields (m_fields a')\<rparr>))"

text \<open>The virtual call \<^verbatim>\<open>agg->DropDiscriminant()\<close>; only the tuple overrides it.\<close>

fun DropDiscriminant :: "MotokoType \<Rightarrow> fault + MotokoType" where
  "DropDiscriminant (MotokoTuple a) =
     (case MotokoTuple_DropDiscriminant a of Inl f \<Rightarrow> Inl f | Inr a' \<Rightarrow> Inr (MotokoTuple a'))"
| "DropDiscriminant (MotokoStruct a) =
     (case AggregateBase_DropDiscriminant a of Inl f \<Rightarrow> Inl f | Inr a' \<Rightarrow> Inr (MotokoStruct a'))"
| "DropDiscriminant (MotokoUnion a) =
     (case AggregateBase_DropDiscriminant a of Inl f \<Rightarrow> Inl f | Inr a' \<Rightarrow> Inr (MotokoUnion a'))"
| "DropDiscriminant (MotokoEnum a e) =
     (case AggregateBase_DropDiscriminant a of Inl f \<Rightarrow> Inl f | Inr a' \<Rightarrow> Inr (MotokoEnum a' e))"
| "DropDiscriminant t = Inr t"

text \<open>
  \<^verbatim>\<open>MotokoEnum::FinishInitialization\<close>: the range-for over the enum's own fields, at the
  remaining fields \<open>iter # rest\<close>. The field's opaque pointer is cast without a test.
  Were the node the enum itself with the flag set, the erase would change the vector
  under the loop.
\<close>

fun MotokoEnum_FinishInitialization :: "heap \<Rightarrow> addr \<Rightarrow> Field list \<Rightarrow> fault + heap" where
  "MotokoEnum_FinishInitialization h this [] = Inr h"
| "MotokoEnum_FinishInitialization h this (iter # rest) =
     (case deref h (GetOpaqueQualType (m_type iter)) of
        Inl f \<Rightarrow> Inl f
      | Inr rtype \<Rightarrow>
         (case AsAggregate rtype of
            None \<Rightarrow> MotokoEnum_FinishInitialization h this rest
          | Some agg \<Rightarrow>
             (if GetOpaqueQualType (m_type iter) = Some this \<and> m_has_discriminant agg
              then Inl IteratorInvalidated
              else case DropDiscriminant rtype of
                     Inl f \<Rightarrow> Inl f
                   | Inr rtype' \<Rightarrow>
                       MotokoEnum_FinishInitialization
                         (h(the (GetOpaqueQualType (m_type iter)) \<mapsto> rtype')) this rest)))"

text \<open>The virtual \<^verbatim>\<open>FinishInitialization\<close> of the node at \<open>p\<close>: empty but for the enum.\<close>

fun FinishInitialization :: "heap \<Rightarrow> addr \<Rightarrow> MotokoType \<Rightarrow> fault + heap" where
  "FinishInitialization h p (MotokoEnum a e) = MotokoEnum_FinishInitialization h p (m_fields a)"
| "FinishInitialization h p t = Inr h"

text \<open>\<^verbatim>\<open>MotokoASTContext::FinishAggregateInitialization\<close>.\<close>

definition FinishAggregateInitialization :: "nat \<Rightarrow> heap \<Rightarrow> CompilerType \<Rightarrow> fault + heap" where
  "FinishAggregateInitialization this h type =
     (if \<not> IsValid type then Inr h
      else case dyn_cast_or_null (GetTypeSystem type) of
        None \<Rightarrow> Inr h
      | Some ast \<Rightarrow>
         (case deref h (GetOpaqueQualType type) of
            Inl f \<Rightarrow> Inl f
          | Inr rtype \<Rightarrow>
             (case AsAggregate rtype of
                None \<Rightarrow> Inr h
              | Some a \<Rightarrow> FinishInitialization h (the (GetOpaqueQualType type)) rtype)))"

text \<open>A node on which \<^verbatim>\<open>DropDiscriminant\<close> has nothing left to do.\<close>

definition settled :: "heap \<Rightarrow> addr \<Rightarrow> bool" where
  "settled h q \<longleftrightarrow> (\<exists>t. h q = Some t \<and> DropDiscriminant t = Inr t)"



section \<open>C declarations\<close>

text \<open>
  \<^verbatim>\<open>TypeNameMap\<close>: the tags given to aggregate nodes, the \<^verbatim>\<open>unsigned\<close> counter and the text
  of the definitions emitted so far.
\<close>

record TypeNameMap =
  name_map :: "addr \<rightharpoonup> string"
  counter :: "32 word"
  typedefs :: string

text \<open>\<^verbatim>\<open>TypeNameMap::Tag\<close>: whether the node is new to the map, its tag, and the map after.\<close>

definition Tag :: "TypeNameMap \<Rightarrow> addr \<Rightarrow> bool \<times> string \<times> TypeNameMap" where
  "Tag nm type =
     (case name_map nm type of
        None \<Rightarrow>
          (let tagname = ''tag'' @ to_string (unat (counter nm))
           in (True, tagname,
               nm\<lparr>counter := counter nm + 1, name_map := (name_map nm)(type \<mapsto> tagname)\<rparr>))
      | Some tagname \<Rightarrow> (False, tagname, nm))"

text \<open>
  The virtual \<^verbatim>\<open>GetCABITypeDeclaration\<close> of the node at \<open>p\<close>, with the loop of
  \<^verbatim>\<open>GetFieldsCABITypeDeclaration\<close> over the remaining fields (\<open>argno\<close> counts the unnamed
  ones met so far) and the loop over the arguments of a function (\<open>first\<close> as in the
  source). Every opaque pointer is cast and used without a test. The first argument
  bounds the depth of the calls.
\<close>

fun GetCABITypeDeclaration ::
    "nat \<Rightarrow> heap \<Rightarrow> TypeNameMap \<Rightarrow> addr option \<Rightarrow> string \<Rightarrow> fault + (string \<times> TypeNameMap)"
  and GetFieldsCABITypeDeclaration ::
    "nat \<Rightarrow> heap \<Rightarrow> TypeNameMap \<Rightarrow> Field list \<Rightarrow> nat \<Rightarrow> fault + (string \<times> TypeNameMap)"
  and GetArgumentsCABITypeDeclaration ::
    "nat \<Rightarrow> heap \<Rightarrow> TypeNameMap \<Rightarrow> CompilerType list \<Rightarrow> bool \<Rightarrow> fault + (string \<times> TypeNameMap)"
  where
  "GetCABITypeDeclaration 0 h nm p varname = Inl OutOfFuel"
| "GetCABITypeDeclaration (Suc n) h nm p varname =
     (case deref h p of
        Inl f \<Rightarrow> Inl f
      | Inr t \<Rightarrow>
         (case t of
            MotokoBool _ \<Rightarrow> Inr (''bool '' @ varname, nm)
          | MotokoIntegral _ is_signed byte_size _ \<Rightarrow>
              Inr (''__'' @ (if \<not> is_signed then ''U'' else []) @ ''INT''
                     @ to_string (unat (8 * byte_size)) @ ''_TYPE__ '' @ varname, nm)
          | MotokoCLikeEnum _ underlying_type _ \<Rightarrow>
              GetCABITypeDeclaration n h nm (GetOpaqueQualType underlying_type) varname
          | MotokoFloat _ byte_size \<Rightarrow>
              Inr ((if byte_size = 4 then ''float '' else ''double '') @ varname, nm)
          | MotokoPointer _ pointee _ \<Rightarrow>
              (case deref h (GetOpaqueQualType pointee) of
                 Inl f \<Rightarrow> Inl f
               | Inr p_type \<Rightarrow>
                  (if AsFunction p_type
                   then GetCABITypeDeclaration n h nm (GetOpaqueQualType pointee) varname
                   else case GetCABITypeDeclaration n h nm (GetOpaqueQualType pointee) [] of
                          Inl f \<Rightarrow> Inl f
                        | Inr (s, nm') \<Rightarrow> Inr (s @ ''* '' @ varname, nm')))
          | MotokoArray _ len elem \<Rightarrow>
              (case GetCABITypeDeclaration n h nm (GetOpaqueQualType elem) varname of
                 Inl f \<Rightarrow> Inl f
               | Inr (s, nm') \<Rightarrow> Inr (s @ ''['' @ to_string (unat len) @ '']'', nm'))
          | MotokoTuple a \<Rightarrow>
              (case Tag nm (the p) of
                 (False, tagname, nm1) \<Rightarrow> Inr (tagname @ '' '' @ varname, nm1)
               | (True, tagname, nm1) \<Rightarrow>
                  (case GetFieldsCABITypeDeclaration n h nm1 (m_fields a) 0 of
                     Inl f \<Rightarrow> Inl f
                   | Inr (body, nm2) \<Rightarrow>
                       Inr (tagname @ '' '' @ varname,
                            nm2\<lparr>typedefs := typedefs nm2 @
                               ''  struct '' @ tagname @ ''{'' @ body @ '' };'' @ [CHR 0x0A]\<rparr>)))
          | MotokoStruct a \<Rightarrow>
              (case Tag nm (the p) of
                 (False, tagname, nm1) \<Rightarrow> Inr (tagname @ '' '' @ varname, nm1)
               | (True, tagname, nm1) \<Rightarrow>
                  (case GetFieldsCABITypeDeclaration n h nm1 (m_fields a) 0 of
                     Inl f \<Rightarrow> Inl f
                   | Inr (body, nm2) \<Rightarrow>
                       Inr (tagname @ '' '' @ varname,
                            nm2\<lparr>typedefs := typedefs nm2 @
                               ''  struct '' @ tagname @ ''{'' @ body @ '' };'' @ [CHR 0x0A]\<rparr>)))
          | MotokoUnion a \<Rightarrow>
              (case Tag nm (the p) of
                 (False, tagname, nm1) \<Rightarrow> Inr (tagname @ '' '' @ varname, nm1)
               | (True, tagname, nm1) \<Rightarrow>
                  (case GetFieldsCABITypeDeclaration n h nm1 (m_fields a) 0 of
                     Inl f \<Rightarrow> Inl f
                   | Inr (body, nm2) \<Rightarrow>
                       Inr (tagname @ '' '' @ varname,
                            nm2\<lparr>typedefs := typedefs nm2 @
                               ''  union '' @ tagname @ ''{'' @ body @ '' };'' @ [CHR 0x0A]\<rparr>)))
          | MotokoEnum a e \<Rightarrow>
              (case Tag nm (the p) of
                 (False, tagname, nm1) \<Rightarrow> Inr (tagname @ '' '' @ varname, nm1)
               | (True, tagname, nm1) \<Rightarrow>
                  (case GetFieldsCABITypeDeclaration n h nm1 (m_fields a) 0 of
                     Inl f \<Rightarrow> Inl f
                   | Inr (body, nm2) \<Rightarrow>
                       Inr (tagname @ '' '' @ varname,
                            nm2\<lparr>typedefs := typedefs nm2 @
                               ''struct '' @ tagname @ ''{ ''
                               @ (if 1 < FieldCount a \<and> m_discr_offset e = 0
                                  then ''int'' @ to_string (unat (8 * m_discr_byte_size e))
                                       @ ''_t __discr; ''
                                  else [])
                               @ body @ '' };'' @ [CHR 0x0A]\<rparr>)))
          | MotokoFunction _ _ return_type arguments _ \<Rightarrow>
              (case GetCABITypeDeclaration n h nm (GetOpaqueQualType return_type) [] of
                 Inl f \<Rightarrow> Inl f
               | Inr (r, nm1) \<Rightarrow>
                  (case GetArgumentsCABITypeDeclaration n h nm1 arguments True of
                     Inl f \<Rightarrow> Inl f
                   | Inr (args, nm2) \<Rightarrow>
                       Inr (r @ '' (*'' @ varname @ '')('' @ args @ '')'', nm2)))
          | MotokoTypedef _ type \<Rightarrow>
              GetCABITypeDeclaration n h nm (GetOpaqueQualType type) varname))"
| "GetFieldsCABITypeDeclaration n h nm [] argno = Inr ([], nm)"
| "GetFieldsCABITypeDeclaration n h nm (f # fs) argno =
     (case GetCABITypeDeclaration n h nm (GetOpaqueQualType (m_type f))
             (if m_name f = [] then ''__'' @ to_string argno else ''_'' @ m_name f) of
        Inl x \<Rightarrow> Inl x
      | Inr (s, nm1) \<Rightarrow>
         (case GetFieldsCABITypeDeclaration n h nm1 fs
                 (if m_name f = [] then Suc argno else argno) of
            Inl x \<Rightarrow> Inl x
          | Inr (rest, nm2) \<Rightarrow> Inr (s @ ''; '' @ rest, nm2)))"
| "GetArgumentsCABITypeDeclaration n h nm [] first = Inr ([], nm)"
| "GetArgumentsCABITypeDeclaration n h nm (iter # rest) first =
     (case GetCABITypeDeclaration n h nm (GetOpaqueQualType iter) [] of
        Inl x \<Rightarrow> Inl x
      | Inr (s, nm1) \<Rightarrow>
         (case GetArgumentsCABITypeDeclaration n h nm1 rest False of
            Inl x \<Rightarrow> Inl x
          | Inr (others, nm2) \<Rightarrow> Inr ((if \<not> first then '', '' else []) @ s @ others, nm2)))"

text \<open>
  \<^verbatim>\<open>MotokoASTContext::GetCABITypeDeclaration\<close>: false, with nothing written, on a handle
  that is invalid or of another type-system class.
\<close>

definition MotokoASTContext_GetCABITypeDeclaration ::
  "nat \<Rightarrow> nat \<Rightarrow> heap \<Rightarrow> CompilerType \<Rightarrow> string \<Rightarrow> TypeNameMap
     \<Rightarrow> fault + (bool \<times> string option \<times> TypeNameMap)" where
  "MotokoASTContext_GetCABITypeDeclaration n this h type varname nm =
     (if \<not> IsValid type then Inr (False, None, nm)
      else case dyn_cast_or_null (GetTypeSystem type) of
        None \<Rightarrow> Inr (False, None, nm)
      | Some ast \<Rightarrow>
         (case GetCABITypeDeclaration n h nm (GetOpaqueQualType type) varname of
            Inl f \<Rightarrow> Inl f
          | Inr (result, nm') \<Rightarrow> Inr (True, Some result, nm')))"

text \<open>
  One state of the tag map extends another: every tag given is still there, and the
  text of the definitions has only grown at its end.
\<close>

definition extends :: "TypeNameMap \<Rightarrow> TypeNameMap \<Rightarrow> bool" where
  "extends nm nm' \<longleftrightarrow>
     (\<forall>q tg. name_map nm q = Some tg \<longrightarrow> name_map nm' q = Some tg) \<and>
     (\<exists>suffix. typedefs nm' = typedefs nm @ suffix)"

section \<open>Dynamic variant resolution\<close>

text \<open>
  Modelled from the spec: the value object and the process are the host debugger's
  (section 6). \<^verbatim>\<open>currentLoadAddress(value)\<close> gives an address or is unavailable, which
  the runtime reads as \<^verbatim>\<open>LLDB_INVALID_ADDRESS\<close>, the all-ones address;
  \<^verbatim>\<open>readUnsignedInteger(address, byteSize)\<close> gives a value or an error. A value may have
  no process.
\<close>

definition LLDB_INVALID_ADDRESS :: "64 word" where
  "LLDB_INVALID_ADDRESS = - 1"

record ValueObject =
  GetCompilerType :: CompilerType
  GetAddressOf :: "64 word"
  GetProcessPtr :: "(64 word \<Rightarrow> 64 word \<Rightarrow> 64 word option) option"

datatype ValueType = eValueTypeScalar | eValueTypeLoadAddress

text \<open>The reference parameters: the resolved type (none after \<^verbatim>\<open>Clear\<close>), the dynamic
  address (none while it has not been set) and the value type.\<close>

record DynamicType =
  class_type_or_name :: "CompilerType option"
  dynamic_address :: "64 word option"
  value_type :: ValueType

definition no_dynamic_type :: "bool \<times> DynamicType" where
  "no_dynamic_type =
     (False, \<lparr>class_type_or_name = None, dynamic_address = None,
              value_type = eValueTypeScalar\<rparr>)"

text \<open>
  \<^verbatim>\<open>RustLanguageRuntime::GetDynamicTypeAndAddress\<close>. The header of the Rust AST context
  declares the interface whose bodies the sources give under the Motoko name; the
  runtime is modelled over those bodies.
\<close>

definition GetDynamicTypeAndAddress :: "heap \<Rightarrow> ValueObject \<Rightarrow> fault + (bool \<times> DynamicType)" where
  "GetDynamicTypeAndAddress h in_value =
     (let type = GetCompilerType in_value in
      case dyn_cast_or_null (GetTypeSystem type) of
        None \<Rightarrow> Inr no_dynamic_type
      | Some ast \<Rightarrow>
         (case GetEnumDiscriminantLocation ast h type of
            Inl f \<Rightarrow> Inl f
          | Inr None \<Rightarrow> Inr no_dynamic_type
          | Inr (Some (discr_offset, discr_byte_size)) \<Rightarrow>
             (let original_ptr = GetAddressOf in_value in
              if original_ptr = LLDB_INVALID_ADDRESS then Inr no_dynamic_type
              else case GetProcessPtr in_value of
                None \<Rightarrow> Inr no_dynamic_type
              | Some process \<Rightarrow>
                 (case process (original_ptr + discr_offset) discr_byte_size of
                    None \<Rightarrow> Inr no_dynamic_type
                  | Some discriminant \<Rightarrow>
                     (case FindEnumVariant ast h type discriminant of
                        Inl f \<Rightarrow> Inl f
                      | Inr variant_type \<Rightarrow>
                          Inr (True, \<lparr>class_type_or_name = Some variant_type,
                                     dynamic_address = Some original_ptr,
                                     value_type = eValueTypeLoadAddress\<rparr>))))))"

section \<open>An example: \<open>Option<i32>\<close>\<close>

text \<open>
  The enum of the end-to-end scenario before finalization: the payloads \<open>None\<close> (a
  struct) and \<open>Some\<close> (a tuple struct) still carry their leading discriminant field.
\<close>

definition option_variants :: "Field list" where
  "option_variants =
     [\<lparr>m_name = ''None'', m_type = CompilerType (Some (ASTContext 0)) (Some 2), m_offset = 0\<rparr>,
      \<lparr>m_name = ''Some'', m_type = CompilerType (Some (ASTContext 0)) (Some 1), m_offset = 0\<rparr>]"

definition option_heap :: heap where
  "option_heap =
     (Map.empty :: heap)
       (0 \<mapsto> MotokoIntegral ''i32'' True 4 False,
        1 \<mapsto> MotokoTuple
              \<lparr>Name = ''Some'', m_byte_size = 8,
               m_fields = [\<lparr>m_name = [], m_type = CompilerType (Some (ASTContext 0)) (Some 0),
                            m_offset = 0\<rparr>,
                           \<lparr>m_name = [], m_type = CompilerType (Some (ASTContext 0)) (Some 0),
                            m_offset = 4\<rparr>],
               m_has_discriminant = True, m_template_args = []\<rparr>,
        2 \<mapsto> MotokoStruct
              \<lparr>Name = ''None'', m_byte_size = 8,
               m_fields = [\<lparr>m_name = ''RUST$ENUM$DISR'',
                            m_type = CompilerType (Some (ASTContext 0)) (Some 0), m_offset = 0\<rparr>],
               m_has_discriminant = True, m_template_args = []\<rparr>,
        3 \<mapsto> MotokoEnum
              \<lparr>Name = ''Option<i32>'', m_byte_size = 8,
               m_fields = option_variants,
               m_has_discriminant = False, m_template_args = []\<rparr>
              \<lparr>m_discr_offset = 0, m_discr_byte_size = 1, m_default = - 1,
               m_discriminants = [0 \<mapsto> 0, 1 \<mapsto> 1]\<rparr>)"

definition option_enum :: CompilerType where
  "option_enum = CompilerType (Some (ASTContext 0)) (Some 3)"

text \<open>A \<^verbatim>\<open>TypeNameMap\<close> as its default member initializers leave it.\<close>

definition fresh_name_map :: TypeNameMap where
  "fresh_name_map = \<lparr>name_map = Map.empty, counter = 0, typedefs = []\<rparr>"

section \<open>An example: a function over a struct\<close>



section \<open>Properties: variant lookup\<close>

lemma AddFields_snoc:
  "AddFields this h t (cs @ [c]) =
     (case AddFields this h t cs of
        Inl f \<Rightarrow> Inl f
      | Inr h' \<Rightarrow> AddFieldToStruct this h' t (af_name c) (af_type c) (af_offset c)
             (af_is_default c) (af_discriminant c))"
  by (induction cs arbitrary: h) (auto split: sum.splits)

lemma enum_tracks_step:
  assumes "enum_tracks a e cs"
  shows "enum_tracks (AddField a (af_name c) (af_type c) (ucast (af_offset c)))
           (RecordDiscriminant (AddField a (af_name c) (af_type c) (ucast (af_offset c))) e
              (af_is_default c) (af_discriminant c)) (cs @ [c])"
proof -
  let ?a = "AddField a (af_name c) (af_type c) (ucast (af_offset c))"
  let ?e = "RecordDiscriminant ?a e (af_is_default c) (af_discriminant c)"
  from assms have F: "m_fields a = map field_of cs"
    and D: "\<And>d. case m_discriminants e d of
            None \<Rightarrow> recorded_variant cs d = None
          | Some i \<Rightarrow> 0 \<le> i \<and> nat i < length cs \<and> recorded_variant cs d = Some (af_type (cs ! nat i))"
    and Z: "if m_default e = - 1 then default_variant cs = None
      else 0 \<le> m_default e \<and> nat (m_default e) < length cs \<and>
           default_variant cs = Some (af_type (cs ! nat (m_default e)))"
    unfolding enum_tracks_def by blast+
  have n: "int (FieldCount ?a) - 1 = int (length cs)"
    by (simp add: FieldCount_def AddField_def F)
  have 1: "m_fields ?a = map field_of (cs @ [c])"
    by (simp add: AddField_def F field_of_def)
  have 2: "case m_discriminants ?e d of
            None \<Rightarrow> recorded_variant (cs @ [c]) d = None
          | Some i \<Rightarrow> 0 \<le> i \<and> nat i < length (cs @ [c]) \<and>
              recorded_variant (cs @ [c]) d = Some (af_type ((cs @ [c]) ! nat i))" for d
    using D [of d]
    by (auto simp: RecordDiscriminant_def Let_def n recorded_variant_def nth_append
        split: option.splits)
  have 3: "if m_default ?e = - 1 then default_variant (cs @ [c]) = None
      else 0 \<le> m_default ?e \<and> nat (m_default ?e) < length (cs @ [c]) \<and>
           default_variant (cs @ [c]) = Some (af_type ((cs @ [c]) ! nat (m_default ?e)))"
    using Z
    by (auto simp: RecordDiscriminant_def Let_def n default_variant_def nth_append
        split: if_splits)
  show ?thesis
    unfolding enum_tracks_def using 1 2 3 by blast
qed

lemma enum_tracks_find:
  assumes "enum_tracks a e cs"
  shows "MotokoEnum_FindEnumVariant a e d =
     Inr (case recorded_variant cs d of
            Some t \<Rightarrow> t
          | None \<Rightarrow> (case default_variant cs of Some t \<Rightarrow> t | None \<Rightarrow> CompilerType_empty))"
proof -
  from assms have F: "m_fields a = map field_of cs"
    and D: "case m_discriminants e d of
            None \<Rightarrow> recorded_variant cs d = None
          | Some i \<Rightarrow> 0 \<le> i \<and> nat i < length cs \<and> recorded_variant cs d = Some (af_type (cs ! nat i))"
    and Z: "if m_default e = - 1 then default_variant cs = None
      else 0 \<le> m_default e \<and> nat (m_default e) < length cs \<and>
           default_variant cs = Some (af_type (cs ! nat (m_default e)))"
    unfolding enum_tracks_def by blast+
  show ?thesis
    using D Z
    by (auto simp: MotokoEnum_FindEnumVariant_def FieldAt_def F field_of_def
        split: option.splits if_splits)
qed

lemma AddFields_enum:
  assumes "h p = Some (MotokoEnum a e)" "enum_tracks a e []"
  shows "\<exists>h' a' e'. AddFields this h (CompilerType (Some (ASTContext c)) (Some p)) cs = Inr h' \<and>
           h' p = Some (MotokoEnum a' e') \<and> enum_tracks a' e' cs"
proof (induction cs rule: rev_induct)
  case Nil
  then show ?case using assms by simp
next
  case (snoc x xs)
  then obtain h' a' e' where
    A: "AddFields this h (CompilerType (Some (ASTContext c)) (Some p)) xs = Inr h'"
    and B: "h' p = Some (MotokoEnum a' e')" and C: "enum_tracks a' e' xs"
    by blast
  show ?case
    using enum_tracks_step [OF C, of x]
    by (simp add: AddFields_snoc A AddFieldToStruct_def IsValid_def deref_def B Let_def)
qed

lemma enum_tracks_fresh:
  "enum_tracks (new_aggregate name byte_size False)
     \<lparr>m_discr_offset = off, m_discr_byte_size = sz, m_default = - 1, m_discriminants = Map.empty\<rparr> []"
  by (simp add: enum_tracks_def new_aggregate_def recorded_variant_def default_variant_def)

text \<open>
  C1. An enum is created and filled by any sequence of \<^verbatim>\<open>AddFieldToStruct\<close> calls. The
  calls all return, and on the enum they leave \<^verbatim>\<open>FindEnumVariant\<close> at \<open>d\<close> returns the payload
  type recorded for the discriminant \<open>d\<close>; when no call recorded \<open>d\<close>, the payload type of
  the default variant if one was recorded; and the empty handle when neither exists.
\<close>

theorem FindEnumVariant_round_trip:
  assumes "CreateEnumType this w name byte_size discr_offset discr_byte_size = (type, w')"
  shows "\<exists>h'. AddFields this (nodes w') type cs = Inr h' \<and>
     (\<forall>t. recorded_variant cs d = Some t \<longrightarrow> FindEnumVariant this h' type d = Inr t) \<and>
     (\<forall>t. recorded_variant cs d = None \<and> default_variant cs = Some t \<longrightarrow>
          FindEnumVariant this h' type d = Inr t) \<and>
     (recorded_variant cs d = None \<and> default_variant cs = None \<longrightarrow>
          FindEnumVariant this h' type d = Inr CompilerType_empty)"
proof -
  let ?a = "new_aggregate name byte_size False"
  let ?e = "\<lparr>m_discr_offset = discr_offset, m_discr_byte_size = discr_byte_size,
             m_default = - 1, m_discriminants = Map.empty\<rparr>"
  from assms have t: "type = CompilerType (Some (ASTContext this)) (Some (brk w))"
    and n: "nodes w' (brk w) = Some (MotokoEnum ?a ?e)"
    by (auto simp: CreateEnumType_def CacheType_def)
  have "enum_tracks ?a ?e []" by (rule enum_tracks_fresh)
  from AddFields_enum [where h = "nodes w'" and p = "brk w" and this = this and c = this and cs = cs, OF n this]
  obtain h' a' e' where
    A: "AddFields this (nodes w') type cs = Inr h'"
    and B: "h' (brk w) = Some (MotokoEnum a' e')" and C: "enum_tracks a' e' cs"
    unfolding t by blast
  have "FindEnumVariant this h' type d = MotokoEnum_FindEnumVariant a' e' d"
    by (simp add: FindEnumVariant_def t IsValid_def deref_def B)
  with enum_tracks_find [OF C, of d] A show ?thesis
    by (auto split: option.splits)
qed


theorem FindEnumVariant_round_trip_witness:
  "\<exists>h'. AddFields 0 ((Map.empty :: heap)(0 \<mapsto> MotokoEnum (new_aggregate ''E'' 8 False)
            \<lparr>m_discr_offset = 0, m_discr_byte_size = 1, m_default = - 1,
             m_discriminants = Map.empty\<rparr>))
          (CompilerType (Some (ASTContext 0)) (Some 0))
          [\<lparr>af_name = ''V0'', af_type = CompilerType (Some (ASTContext 0)) (Some 10),
            af_offset = 0, af_is_default = False, af_discriminant = 0\<rparr>,
           \<lparr>af_name = ''V1'', af_type = CompilerType (Some (ASTContext 0)) (Some 11),
            af_offset = 0, af_is_default = False, af_discriminant = 1\<rparr>,
           \<lparr>af_name = ''Vdefault'', af_type = CompilerType (Some (ASTContext 0)) (Some 12),
            af_offset = 0, af_is_default = True, af_discriminant = 0\<rparr>] = Inr h' \<and>
        FindEnumVariant 0 h' (CompilerType (Some (ASTContext 0)) (Some 0)) 999
          = Inr (CompilerType (Some (ASTContext 0)) (Some 12))"
  using FindEnumVariant_round_trip
    [of 0 "\<lparr>nodes = Map.empty, brk = 0\<rparr>" "''E''" 8 0 1
        "CompilerType (Some (ASTContext 0)) (Some 0)"
        "\<lparr>nodes = (Map.empty :: heap)(0 \<mapsto> MotokoEnum (new_aggregate ''E'' 8 False)
            \<lparr>m_discr_offset = 0, m_discr_byte_size = 1, m_default = - 1,
             m_discriminants = Map.empty\<rparr>), brk = Suc 0\<rparr>"
        "[\<lparr>af_name = ''V0'', af_type = CompilerType (Some (ASTContext 0)) (Some 10),
            af_offset = 0, af_is_default = False, af_discriminant = 0\<rparr>,
           \<lparr>af_name = ''V1'', af_type = CompilerType (Some (ASTContext 0)) (Some 11),
            af_offset = 0, af_is_default = False, af_discriminant = 1\<rparr>,
           \<lparr>af_name = ''Vdefault'', af_type = CompilerType (Some (ASTContext 0)) (Some 12),
            af_offset = 0, af_is_default = True, af_discriminant = 0\<rparr>]" 999]
  by (simp add: CreateEnumType_def CacheType_def recorded_variant_def default_variant_def)

section \<open>Properties: void\<close>

text \<open>
  C6, as the code has it. \<^verbatim>\<open>IsVoidType\<close> holds exactly of a tuple node with no field whose
  name is \<open>()\<close>. A tuple named \<open>()\<close> with a field is not void, a struct is never void, and
  a tuple with no field and no name is not void either: the test asks for a name that
  is not empty.
\<close>

theorem IsVoidType_exactly:
  assumes "h p = Some t"
  shows "IsVoidType h (Some p) =
           Inr (\<exists>a. t = MotokoTuple a \<and> Name a = ''()'' \<and> m_fields a = []) \<and>
         (\<forall>a. t = MotokoTuple a \<and> Name a = ''()'' \<and> m_fields a \<noteq> [] \<longrightarrow>
              IsVoidType h (Some p) = Inr False) \<and>
         (\<forall>a. t = MotokoStruct a \<longrightarrow> IsVoidType h (Some p) = Inr False) \<and>
         (\<forall>a. t = MotokoTuple a \<and> Name a = [] \<longrightarrow> IsVoidType h (Some p) = Inr False)"
  using assms by (cases t) (auto simp: IsVoidType_def FieldCount_def)

theorem IsVoidType_exactly_witness:
  "IsVoidType ((Map.empty :: heap)(0 \<mapsto> MotokoTuple (new_aggregate ''()'' 0 False))) (Some 0)
     = Inr True"
  using IsVoidType_exactly
    [of "(Map.empty :: heap)(0 \<mapsto> MotokoTuple (new_aggregate ''()'' 0 False))" 0
        "MotokoTuple (new_aggregate ''()'' 0 False)"]
  by (simp add: new_aggregate_def)

text \<open>The claim's last clause fails: the unnamed tuple with no field is not void.\<close>

theorem IsVoidType_unnamed_counterexample:
  "IsVoidType ((Map.empty :: heap)(0 \<mapsto> MotokoTuple (new_aggregate [] 0 False))) (Some 0)
     = Inr False"
  by (simp add: IsVoidType_def new_aggregate_def)

section \<open>Properties: number of children\<close>

lemma GetNumChildren_aggregate:
  "h q = Some pt \<Longrightarrow> AsAggregate pt = Some a \<Longrightarrow>
     GetNumChildren (Suc n) h (Some q) = Inr (word_of_nat (length (m_fields a)))"
  by (cases pt) (simp_all add: FieldCount_def)

lemma GetNumChildren_primitive:
  "h q = Some pt \<Longrightarrow> Primitive pt \<Longrightarrow> GetNumChildren (Suc n) h (Some q) = Inr 0"
  by (cases pt) simp_all

lemma GetNumChildren_pointer:
  "h p = Some (MotokoPointer nm pointee sz) \<Longrightarrow>
     GetNumChildren (Suc n) h (Some p) =
       (case CompilerType_GetNumChildren n h pointee of
          Inl f \<Rightarrow> Inl f
        | Inr r \<Rightarrow> Inr (if r = 0 then 1 else r))"
  by simp

lemma CompilerType_GetNumChildren_own:
  "CompilerType_GetNumChildren n h (CompilerType (Some (ASTContext i)) (Some q)) =
     GetNumChildren n h (Some q)"
  by (simp add: IsValid_def)

lemma GetNumChildren_array:
  "h p = Some (MotokoArray nm len elem) \<Longrightarrow> GetNumChildren (Suc n) h (Some p) = Inr (ucast len)"
  by simp

lemma ucast_two_to_32: "ucast (4294967296 :: 64 word) = (0 :: 32 word)"
  by (simp add: ucast_eq)

text \<open>
  C3, as the code has it. The count is a 32-bit value. For a pointer it is the count of
  the pointee, and 1 when that is 0; for an array the length cut to 32 bits; for an
  aggregate the field count; for a typedef the count of the aliased type. So a pointer
  to a primitive has one child, and a pointer to an aggregate with at least one field
  has as many children as the aggregate has fields (an aggregate with no field reports
  0, which the pointer turns into 1).
\<close>

theorem GetNumChildren_by_variant:
  assumes "h p = Some t"
  shows "(\<forall>nm pointee sz. t = MotokoPointer nm pointee sz \<longrightarrow>
            GetNumChildren (Suc n) h (Some p) =
              (case CompilerType_GetNumChildren n h pointee of
                 Inl f \<Rightarrow> Inl f
               | Inr r \<Rightarrow> Inr (if r = 0 then 1 else r))) \<and>
         (\<forall>nm len elem. t = MotokoArray nm len elem \<longrightarrow>
            GetNumChildren (Suc n) h (Some p) = Inr (ucast len)) \<and>
         (\<forall>a. AsAggregate t = Some a \<longrightarrow>
            GetNumChildren (Suc n) h (Some p) = Inr (word_of_nat (length (m_fields a)))) \<and>
         (\<forall>nm underlying. t = MotokoTypedef nm underlying \<longrightarrow>
            GetNumChildren (Suc n) h (Some p) = CompilerType_GetNumChildren n h underlying) \<and>
         (\<forall>nm i q sz. t = MotokoPointer nm (CompilerType (Some (ASTContext i)) (Some q)) sz \<longrightarrow>
            (\<forall>pt. h q = Some pt \<and> Primitive pt \<longrightarrow>
               GetNumChildren (Suc (Suc n)) h (Some p) = Inr 1) \<and>
            (\<forall>pt a. h q = Some pt \<and> AsAggregate pt = Some a \<longrightarrow>
               GetNumChildren (Suc (Suc n)) h (Some p) =
                 Inr (if (word_of_nat (length (m_fields a)) :: 32 word) = 0 then 1
                      else word_of_nat (length (m_fields a)))))"
proof (intro conjI allI impI)
  fix nm pointee sz assume "t = MotokoPointer nm pointee sz"
  with assms show "GetNumChildren (Suc n) h (Some p) =
              (case CompilerType_GetNumChildren n h pointee of
                 Inl f \<Rightarrow> Inl f
               | Inr r \<Rightarrow> Inr (if r = 0 then 1 else r))"
    by simp
next
  fix nm len elem assume "t = MotokoArray nm len elem"
  with assms show "GetNumChildren (Suc n) h (Some p) = Inr (ucast len)" by simp
next
  fix a assume "AsAggregate t = Some a"
  with assms show "GetNumChildren (Suc n) h (Some p) = Inr (word_of_nat (length (m_fields a)))"
    by (rule GetNumChildren_aggregate)
next
  fix nm underlying assume "t = MotokoTypedef nm underlying"
  with assms show "GetNumChildren (Suc n) h (Some p) = CompilerType_GetNumChildren n h underlying"
    by simp
next
  fix nm i q sz pt
  assume t: "t = MotokoPointer nm (CompilerType (Some (ASTContext i)) (Some q)) sz"
    and pt: "h q = Some pt \<and> Primitive pt"
  have "GetNumChildren (Suc n) h (Some q) = Inr 0"
    using pt GetNumChildren_primitive [of h q pt n] by blast
  with assms t show "GetNumChildren (Suc (Suc n)) h (Some p) = Inr 1"
    by (simp add: GetNumChildren_pointer CompilerType_GetNumChildren_own del: GetNumChildren.simps
          CompilerType_GetNumChildren.simps)
next
  fix nm i q sz pt a
  assume t: "t = MotokoPointer nm (CompilerType (Some (ASTContext i)) (Some q)) sz"
    and pt: "h q = Some pt \<and> AsAggregate pt = Some a"
  have "GetNumChildren (Suc n) h (Some q) = Inr (word_of_nat (length (m_fields a)))"
    using pt GetNumChildren_aggregate [of h q pt a n] by blast
  with assms t show "GetNumChildren (Suc (Suc n)) h (Some p) =
                 Inr (if (word_of_nat (length (m_fields a)) :: 32 word) = 0 then 1
                      else word_of_nat (length (m_fields a)))"
    by (simp add: GetNumChildren_pointer CompilerType_GetNumChildren_own del: GetNumChildren.simps
          CompilerType_GetNumChildren.simps)
qed


theorem GetNumChildren_by_variant_witness:
  "GetNumChildren (Suc (Suc 0))
     ((Map.empty :: heap)(0 \<mapsto> MotokoIntegral ''i32'' True 4 False,
        1 \<mapsto> MotokoPointer ''&i32'' (CompilerType (Some (ASTContext 0)) (Some 0)) 8))
     (Some 1) = Inr 1"
  using GetNumChildren_by_variant
    [of "(Map.empty :: heap)(0 \<mapsto> MotokoIntegral ''i32'' True 4 False,
        1 \<mapsto> MotokoPointer ''&i32'' (CompilerType (Some (ASTContext 0)) (Some 0)) 8)"
        1 "MotokoPointer ''&i32'' (CompilerType (Some (ASTContext 0)) (Some 0)) 8" 0]
  by (simp del: GetNumChildren.simps CompilerType_GetNumChildren.simps)

text \<open>
  The claim as stated fails twice: a pointer to an aggregate with \<open>N = 0\<close> fields has
  1 child, not \<open>N\<close>; an array of length \<open>2^32\<close> has 0 children, not its length.
\<close>

theorem GetNumChildren_counterexample:
  "GetNumChildren (Suc (Suc 0))
     ((Map.empty :: heap)(0 \<mapsto> MotokoStruct (new_aggregate ''Unit'' 0 False),
        1 \<mapsto> MotokoPointer ''&Unit'' (CompilerType (Some (ASTContext 0)) (Some 0)) 8))
     (Some 1) = Inr 1 \<and>
   length (m_fields (new_aggregate ''Unit'' 0 False)) = 0 \<and>
   GetNumChildren (Suc 0)
     ((Map.empty :: heap)(1 \<mapsto> MotokoArray ''[u8; 4294967296]'' 4294967296
          (CompilerType (Some (ASTContext 0)) (Some 0))))
     (Some 1) = Inr 0"
proof -
  have a: "GetNumChildren (Suc (Suc 0))
     ((Map.empty :: heap)(0 \<mapsto> MotokoStruct (new_aggregate ''Unit'' 0 False),
        1 \<mapsto> MotokoPointer ''&Unit'' (CompilerType (Some (ASTContext 0)) (Some 0)) 8))
     (Some 1) = Inr 1"
    by (simp add: IsValid_def new_aggregate_def FieldCount_def)
  have b: "GetNumChildren (Suc 0)
     ((Map.empty :: heap)(1 \<mapsto> MotokoArray ''[u8; 4294967296]'' 4294967296
          (CompilerType (Some (ASTContext 0)) (Some 0))))
     (Some 1) = Inr 0"
    by (subst GetNumChildren_array [where nm = "''[u8; 4294967296]''" and len = 4294967296
          and elem = "CompilerType (Some (ASTContext 0)) (Some 0)"])
       (simp_all only: ucast_two_to_32 fun_upd_same)
  have c: "length (m_fields (new_aggregate ''Unit'' 0 False)) = 0"
    by (simp add: new_aggregate_def)
  from a b c show ?thesis by (intro conjI)
qed

text \<open>
  C10. A pointer whose pointee is the void type reports one child, and no index
  retrieves it: the child at every index, 0 included, is the empty handle.
\<close>

theorem pointer_to_void_child:
  assumes "h p = Some (MotokoPointer nm pointee sz)"
    and "CompilerType_IsVoidType h pointee = Inr True"
  shows "GetNumChildren (Suc (Suc n)) h (Some p) = Inr 1 \<and>
         GetChildCompilerTypeAtIndex (Suc n) h (Some p) idx transparent_pointers
             ignore_array_bounds parent_name = Inr (CompilerType_empty, ChildInfo_cleared)"
proof -
  from assms(2) have v: "IsValid pointee"
    by (auto simp: CompilerType_IsVoidType_def split: if_splits)
  from assms(2) v obtain i where i: "dyn_cast_or_null (GetTypeSystem pointee) = Some i"
    and iv: "IsVoidType h (GetOpaqueQualType pointee) = Inr True"
    by (auto simp: CompilerType_IsVoidType_def split: option.splits)
  from iv obtain q t where q: "GetOpaqueQualType pointee = Some q" and hq: "h q = Some t"
    and tt: "AsTuple t \<noteq> None"
    by (auto simp: IsVoidType_def split: option.splits)
  from tt obtain a where t: "t = MotokoTuple a" by (cases t) auto
  from iv have f: "m_fields a = []"
    by (simp add: IsVoidType_def q hq t FieldCount_def)
  have "GetNumChildren (Suc n) h (Some q) = Inr 0"
    using GetNumChildren_aggregate [of h q t a n] by (simp add: hq t f)
  then have "GetNumChildren (Suc (Suc n)) h (Some p) = Inr 1"
    using assms(1) v i q
    by (simp add: GetNumChildren_pointer del: GetNumChildren.simps)
  moreover have "GetChildCompilerTypeAtIndex (Suc n) h (Some p) idx transparent_pointers
             ignore_array_bounds parent_name = Inr (CompilerType_empty, ChildInfo_cleared)"
    by (simp add: assms v)
  ultimately show ?thesis by simp
qed

theorem pointer_to_void_child_witness:
  "GetNumChildren (Suc (Suc 0))
     ((Map.empty :: heap)(0 \<mapsto> MotokoTuple (new_aggregate ''()'' 0 False),
        1 \<mapsto> MotokoPointer ''*mut ()'' (CompilerType (Some (ASTContext 0)) (Some 0)) 8))
     (Some 1) = Inr 1 \<and>
   GetChildCompilerTypeAtIndex (Suc 0)
     ((Map.empty :: heap)(0 \<mapsto> MotokoTuple (new_aggregate ''()'' 0 False),
        1 \<mapsto> MotokoPointer ''*mut ()'' (CompilerType (Some (ASTContext 0)) (Some 0)) 8))
     (Some 1) 0 False False None = Inr (CompilerType_empty, ChildInfo_cleared)"
proof -
  have "CompilerType_IsVoidType
     ((Map.empty :: heap)(0 \<mapsto> MotokoTuple (new_aggregate ''()'' 0 False),
        1 \<mapsto> MotokoPointer ''*mut ()'' (CompilerType (Some (ASTContext 0)) (Some 0)) 8))
     (CompilerType (Some (ASTContext 0)) (Some 0)) = Inr True"
    by (simp add: CompilerType_IsVoidType_def IsValid_def IsVoidType_def new_aggregate_def
        FieldCount_def)
  then show ?thesis
    by (intro pointer_to_void_child [where nm = "''*mut ()''" and sz = 8]) simp_all
qed

section \<open>Properties: finalization\<close>

lemma rename_fields_length [simp]: "length (rename_fields fs) = length fs"
  by (simp add: rename_fields_def)

lemma rename_fields_nth:
  "i < length fs \<Longrightarrow> rename_fields fs ! i = (fs ! i)\<lparr>m_name := to_string i\<rparr>"
  by (simp add: rename_fields_def nth_enumerate_eq)


lemma rename_fields_types: "map m_type (rename_fields fs) = map m_type fs"
  by (rule nth_equalityI) (simp_all add: rename_fields_nth)

lemma rename_fields_offsets: "map m_offset (rename_fields fs) = map m_offset fs"
  by (rule nth_equalityI) (simp_all add: rename_fields_nth)

lemma rename_fields_idem: "rename_fields (rename_fields fs) = rename_fields fs"
  by (rule nth_equalityI) (simp_all add: rename_fields_nth)

lemma AggregateBase_DropDiscriminant_flag:
  "AggregateBase_DropDiscriminant a = Inr b \<Longrightarrow> \<not> m_has_discriminant b"
  by (auto simp: AggregateBase_DropDiscriminant_def split: if_splits list.splits)

lemma AggregateBase_DropDiscriminant_settled:
  "\<not> m_has_discriminant a \<Longrightarrow> AggregateBase_DropDiscriminant a = Inr a"
  by (simp add: AggregateBase_DropDiscriminant_def)

lemma MotokoTuple_DropDiscriminant_idem:
  assumes "MotokoTuple_DropDiscriminant a = Inr a'"
  shows "MotokoTuple_DropDiscriminant a' = Inr a'"
proof -
  from assms obtain b where b: "AggregateBase_DropDiscriminant a = Inr b"
    and a': "a' = b\<lparr>m_fields := rename_fields (m_fields b)\<rparr>"
    by (auto simp: MotokoTuple_DropDiscriminant_def split: sum.splits)
  from b have "\<not> m_has_discriminant a'"
    by (simp add: a' AggregateBase_DropDiscriminant_flag)
  then have "AggregateBase_DropDiscriminant a' = Inr a'"
    by (rule AggregateBase_DropDiscriminant_settled)
  then show ?thesis
    by (simp add: MotokoTuple_DropDiscriminant_def a' rename_fields_idem)
qed

lemma DropDiscriminant_idem:
  assumes "DropDiscriminant t = Inr t'"
  shows "DropDiscriminant t' = Inr t'"
proof (cases t)
  case (MotokoTuple a)
  with assms obtain a' where "MotokoTuple_DropDiscriminant a = Inr a'" "t' = MotokoTuple a'"
    by (auto split: sum.splits)
  then show ?thesis by (simp add: MotokoTuple_DropDiscriminant_idem)
next
  case (MotokoStruct a)
  with assms obtain a' where "AggregateBase_DropDiscriminant a = Inr a'" "t' = MotokoStruct a'"
    by (auto split: sum.splits)
  then show ?thesis
    by (simp add: AggregateBase_DropDiscriminant_flag AggregateBase_DropDiscriminant_settled)
next
  case (MotokoUnion a)
  with assms obtain a' where "AggregateBase_DropDiscriminant a = Inr a'" "t' = MotokoUnion a'"
    by (auto split: sum.splits)
  then show ?thesis
    by (simp add: AggregateBase_DropDiscriminant_flag AggregateBase_DropDiscriminant_settled)
next
  case (MotokoEnum a e)
  with assms obtain a' where "AggregateBase_DropDiscriminant a = Inr a'" "t' = MotokoEnum a' e"
    by (auto split: sum.splits)
  then show ?thesis
    by (simp add: AggregateBase_DropDiscriminant_flag AggregateBase_DropDiscriminant_settled)
qed (use assms in auto)

text \<open>DropDiscriminant keeps the kind of a node.\<close>

lemma DropDiscriminant_AsAggregate:
  "DropDiscriminant t = Inr t' \<Longrightarrow> (AsAggregate t' = None) = (AsAggregate t = None)"
  by (cases t) (auto split: sum.splits)

lemma DropDiscriminant_not_aggregate:
  "AsAggregate t = None \<Longrightarrow> DropDiscriminant t = Inr t"
  by (cases t) auto

lemma DropDiscriminant_fixed_flag:
  "DropDiscriminant t = Inr t \<Longrightarrow> AsAggregate t = Some a \<Longrightarrow> \<not> m_has_discriminant a"
  by (cases t)
     (auto simp: MotokoTuple_DropDiscriminant_def split: sum.splits
       dest: AggregateBase_DropDiscriminant_flag)


lemma FinishInitialization_keeps_enum:
  "MotokoEnum_FinishInitialization h e fs = Inr h' \<Longrightarrow> h e = Some (MotokoEnum a en) \<Longrightarrow>
     h' e = Some (MotokoEnum a en)"
proof (induction fs arbitrary: h)
  case Nil
  then show ?case by simp
next
  case (Cons f fs)
  from Cons.prems(1) obtain q rtype where q: "GetOpaqueQualType (m_type f) = Some q"
    and hq: "h q = Some rtype"
    by (auto simp: deref_def split: option.splits)
  show ?case
  proof (cases "AsAggregate rtype")
    case None
    with Cons.prems q hq have "MotokoEnum_FinishInitialization h e fs = Inr h'"
      by (simp add: deref_def)
    then show ?thesis using Cons.IH Cons.prems(2) by blast
  next
    case (Some agg)
    with Cons.prems(1) q hq have ni: "\<not> (q = e \<and> m_has_discriminant agg)"
      by (auto simp: deref_def split: if_splits)
    with Cons.prems(1) q hq Some obtain rtype' where d: "DropDiscriminant rtype = Inr rtype'"
      and r: "MotokoEnum_FinishInitialization (h(q \<mapsto> rtype')) e fs = Inr h'"
      by (auto simp: deref_def split: sum.splits if_splits)
    have "(h(q \<mapsto> rtype')) e = Some (MotokoEnum a en)"
    proof (cases "q = e")
      case True
      with hq Cons.prems(2) have rt: "rtype = MotokoEnum a en" by simp
      with Some have "agg = a" by simp
      with ni True have "\<not> m_has_discriminant a" by simp
      with d rt have "rtype' = MotokoEnum a en"
        by (simp add: AggregateBase_DropDiscriminant_settled)
      with True show ?thesis by simp
    next
      case False
      with Cons.prems(2) show ?thesis by simp
    qed
    with r show ?thesis using Cons.IH by blast
  qed
qed

lemma FinishInitialization_step_cases:
  assumes "MotokoEnum_FinishInitialization h e (f # fs) = Inr h'"
  obtains q rtype rtype' where "GetOpaqueQualType (m_type f) = Some q" "h q = Some rtype"
    "DropDiscriminant rtype = Inr rtype'"
    "MotokoEnum_FinishInitialization (h(q \<mapsto> rtype')) e fs = Inr h'"
proof -
  from assms obtain q rtype where q: "GetOpaqueQualType (m_type f) = Some q"
    and hq: "h q = Some rtype"
    by (auto simp: deref_def split: option.splits)
  show thesis
  proof (cases "AsAggregate rtype")
    case None
    then have "DropDiscriminant rtype = Inr rtype" by (rule DropDiscriminant_not_aggregate)
    moreover have "h(q \<mapsto> rtype) = h" using hq by (simp add: map_upd_triv)
    moreover from assms q hq None have "MotokoEnum_FinishInitialization h e fs = Inr h'"
      by (simp add: deref_def)
    ultimately show ?thesis using that [of q rtype rtype] q hq by simp
  next
    case (Some agg)
    with assms q hq obtain rtype' where "DropDiscriminant rtype = Inr rtype'"
      "MotokoEnum_FinishInitialization (h(q \<mapsto> rtype')) e fs = Inr h'"
      by (auto simp: deref_def split: sum.splits if_splits)
    then show ?thesis using that q hq by blast
  qed
qed

lemma FinishInitialization_keeps_settled:
  "MotokoEnum_FinishInitialization h e fs = Inr h' \<Longrightarrow> settled h q \<Longrightarrow> settled h' q"
proof (induction fs arbitrary: h)
  case Nil
  then show ?case by simp
next
  case (Cons f fs)
  from Cons.prems(1) obtain q0 rtype rtype' where hq: "h q0 = Some rtype"
    and d: "DropDiscriminant rtype = Inr rtype'"
    and r: "MotokoEnum_FinishInitialization (h(q0 \<mapsto> rtype')) e fs = Inr h'"
    by (rule FinishInitialization_step_cases)
  have "settled (h(q0 \<mapsto> rtype')) q"
  proof (cases "q0 = q")
    case True
    from d have "DropDiscriminant rtype' = Inr rtype'" by (rule DropDiscriminant_idem)
    with True show ?thesis by (simp add: settled_def)
  next
    case False
    with Cons.prems(2) show ?thesis by (simp add: settled_def)
  qed
  with r show ?case using Cons.IH by blast
qed

lemma FinishInitialization_settles:
  "MotokoEnum_FinishInitialization h e fs = Inr h' \<Longrightarrow> f \<in> set fs \<Longrightarrow>
     \<exists>q. GetOpaqueQualType (m_type f) = Some q \<and> settled h' q"
proof (induction fs arbitrary: h)
  case Nil
  then show ?case by simp
next
  case (Cons g fs)
  from Cons.prems(1) obtain q0 rtype rtype' where q0: "GetOpaqueQualType (m_type g) = Some q0"
    and hq: "h q0 = Some rtype"
    and d: "DropDiscriminant rtype = Inr rtype'"
    and r: "MotokoEnum_FinishInitialization (h(q0 \<mapsto> rtype')) e fs = Inr h'"
    by (rule FinishInitialization_step_cases)
  show ?case
  proof (cases "f = g")
    case True
    from d have "DropDiscriminant rtype' = Inr rtype'" by (rule DropDiscriminant_idem)
    then have "settled (h(q0 \<mapsto> rtype')) q0" by (simp add: settled_def)
    with r have "settled h' q0" by (rule FinishInitialization_keeps_settled)
    with True q0 show ?thesis by simp
  next
    case False
    with Cons.prems(2) have "f \<in> set fs" by simp
    with r show ?thesis using Cons.IH by blast
  qed
qed

lemma FinishInitialization_of_settled:
  "(\<And>f. f \<in> set fs \<Longrightarrow> \<exists>q. GetOpaqueQualType (m_type f) = Some q \<and> settled h q) \<Longrightarrow>
     MotokoEnum_FinishInitialization h e fs = Inr h"
proof (induction fs)
  case Nil
  then show ?case by simp
next
  case (Cons g fs)
  from Cons.prems [of g] obtain q t where q: "GetOpaqueQualType (m_type g) = Some q"
    and hq: "h q = Some t" and d: "DropDiscriminant t = Inr t"
    by (auto simp: settled_def)
  have u: "h(q \<mapsto> t) = h" using hq by (simp add: map_upd_triv)
  have r: "MotokoEnum_FinishInitialization h e fs = Inr h"
    using Cons.IH Cons.prems by simp
  show ?case
  proof (cases "AsAggregate t")
    case None
    with q hq r show ?thesis by (simp add: deref_def)
  next
    case (Some agg)
    with d have "\<not> m_has_discriminant agg" by (rule DropDiscriminant_fixed_flag)
    with q hq Some d u r show ?thesis by (simp add: deref_def)
  qed
qed






lemma to_string_digit: "n < 10 \<Longrightarrow> to_string n = [digit_char n]"
  by (simp add: to_string.simps)

lemma to_string_0: "to_string 0 = ''0''"
  by code_simp

lemma option_finish:
  "\<exists>h'. FinishAggregateInitialization 0 option_heap option_enum = Inr h'"
  by (simp add: FinishAggregateInitialization_def option_heap_def option_variants_def option_enum_def IsValid_def
      deref_def MotokoTuple_DropDiscriminant_def AggregateBase_DropDiscriminant_def)




text \<open>
  C9. A second \<^verbatim>\<open>FinishAggregateInitialization\<close> on the same handle changes nothing:
  when the first call returns the heap \<open>h'\<close>, the second returns \<open>h'\<close> again.
\<close>

theorem FinishAggregateInitialization_idempotent:
  assumes "FinishAggregateInitialization this h type = Inr h'"
  shows "FinishAggregateInitialization this h' type = Inr h'"
proof (cases "IsValid type \<and> dyn_cast_or_null (GetTypeSystem type) \<noteq> None")
  case False
  with assms have "h' = h"
    by (auto simp: FinishAggregateInitialization_def split: if_splits)
  with False show ?thesis
    by (auto simp: FinishAggregateInitialization_def)
next
  case True
  with assms obtain p rtype where p: "GetOpaqueQualType type = Some p"
    and hp: "h p = Some rtype"
    by (auto simp: FinishAggregateInitialization_def deref_def split: option.splits)
  show ?thesis
  proof (cases "\<exists>a en. rtype = MotokoEnum a en")
    case False
    then have fi: "FinishInitialization h p rtype = Inr h"
      by (cases rtype) auto
    with assms True p hp have "h' = h"
      by (auto simp: FinishAggregateInitialization_def deref_def split: option.splits)
    with assms show ?thesis by simp
  next
    case E: True
    then obtain a en where rt: "rtype = MotokoEnum a en" by blast
    with assms True p hp have l: "MotokoEnum_FinishInitialization h p (m_fields a) = Inr h'"
      by (auto simp: FinishAggregateInitialization_def deref_def)
    from l hp rt have hp': "h' p = Some (MotokoEnum a en)"
      using FinishInitialization_keeps_enum by blast
    have "MotokoEnum_FinishInitialization h' p (m_fields a) = Inr h'"
      using FinishInitialization_settles [OF l]
      by (intro FinishInitialization_of_settled) blast
    with True p hp' show ?thesis
      by (auto simp: FinishAggregateInitialization_def deref_def)
  qed
qed

theorem FinishAggregateInitialization_idempotent_witness:
  "\<exists>h'. FinishAggregateInitialization 0 option_heap option_enum = Inr h' \<and>
         FinishAggregateInitialization 0 h' option_enum = Inr h'"
proof -
  from option_finish obtain h' where
    "FinishAggregateInitialization 0 option_heap option_enum = Inr h'" ..
  with FinishAggregateInitialization_idempotent [OF this] show ?thesis by blast
qed

section \<open>Properties: dynamic variant resolution\<close>

text \<open>
  C2. The value's static type is a handle that is null or points to a node. When the
  load address is unavailable, when there is no process, or when the read of the
  discriminant at \<open>address + discriminant offset\<close> fails, the resolver returns false
  with no resolved type; it does not fault.
\<close>

theorem GetDynamicTypeAndAddress_failure:
  assumes "\<And>p. GetOpaqueQualType (GetCompilerType v) = Some p \<Longrightarrow> h p \<noteq> None"
  shows "(GetAddressOf v = LLDB_INVALID_ADDRESS \<longrightarrow>
            GetDynamicTypeAndAddress h v = Inr no_dynamic_type) \<and>
         (GetProcessPtr v = None \<longrightarrow> GetDynamicTypeAndAddress h v = Inr no_dynamic_type) \<and>
         (\<forall>process p a e.
            GetProcessPtr v = Some process \<and>
            GetOpaqueQualType (GetCompilerType v) = Some p \<and> h p = Some (MotokoEnum a e) \<and>
            process (GetAddressOf v + ucast (m_discr_offset e)) (ucast (m_discr_byte_size e)) = None
            \<longrightarrow> GetDynamicTypeAndAddress h v = Inr no_dynamic_type)"
proof -
  have loc: "\<exists>r. GetEnumDiscriminantLocation i h (GetCompilerType v) = Inr r" for i
    using assms
    by (cases "GetOpaqueQualType (GetCompilerType v)")
       (auto simp: GetEnumDiscriminantLocation_def deref_def IsValid_def
         split: option.splits)
  have base: "GetDynamicTypeAndAddress h v = Inr no_dynamic_type"
    if "GetAddressOf v = LLDB_INVALID_ADDRESS \<or> GetProcessPtr v = None"
  proof (cases "dyn_cast_or_null (GetTypeSystem (GetCompilerType v))")
    case None
    then show ?thesis by (simp add: GetDynamicTypeAndAddress_def)
  next
    case (Some ast)
    from loc [of ast] obtain r where
      "GetEnumDiscriminantLocation ast h (GetCompilerType v) = Inr r" ..
    with Some that show ?thesis
      by (cases r) (auto simp: GetDynamicTypeAndAddress_def Let_def)
  qed
  show ?thesis
  proof (intro conjI allI impI)
    assume "GetAddressOf v = LLDB_INVALID_ADDRESS"
    then show "GetDynamicTypeAndAddress h v = Inr no_dynamic_type"
      using base by simp
  next
    assume "GetProcessPtr v = None"
    then show "GetDynamicTypeAndAddress h v = Inr no_dynamic_type"
      using base by simp
  next
    fix process p a e
    assume "GetProcessPtr v = Some process \<and>
            GetOpaqueQualType (GetCompilerType v) = Some p \<and> h p = Some (MotokoEnum a e) \<and>
            process (GetAddressOf v + ucast (m_discr_offset e)) (ucast (m_discr_byte_size e)) = None"
    then show "GetDynamicTypeAndAddress h v = Inr no_dynamic_type"
      by (auto simp: GetDynamicTypeAndAddress_def Let_def GetEnumDiscriminantLocation_def
          deref_def IsValid_def split: option.splits)
  qed
qed

theorem GetDynamicTypeAndAddress_failure_witness:
  "GetDynamicTypeAndAddress option_heap
     \<lparr>GetCompilerType = option_enum, GetAddressOf = 4096,
      GetProcessPtr = Some (\<lambda>a s. None)\<rparr> = Inr no_dynamic_type \<and>
   GetDynamicTypeAndAddress option_heap
     \<lparr>GetCompilerType = option_enum, GetAddressOf = LLDB_INVALID_ADDRESS,
      GetProcessPtr = Some (\<lambda>a s. Some 1)\<rparr> = Inr no_dynamic_type"
  using GetDynamicTypeAndAddress_failure
    [of "\<lparr>GetCompilerType = option_enum, GetAddressOf = 4096,
          GetProcessPtr = Some (\<lambda>a s. None)\<rparr>" option_heap]
    GetDynamicTypeAndAddress_failure
    [of "\<lparr>GetCompilerType = option_enum, GetAddressOf = LLDB_INVALID_ADDRESS,
          GetProcessPtr = Some (\<lambda>a s. Some 1)\<rparr>" option_heap]
  by (simp add: option_heap_def option_variants_def option_enum_def)

text \<open>The end-to-end scenario: the byte 1 read at the value's address resolves to the
  payload of \<open>Some\<close>, at the same address.\<close>

lemma GetDynamicTypeAndAddress_example:
  "GetDynamicTypeAndAddress option_heap
     \<lparr>GetCompilerType = option_enum, GetAddressOf = 4096,
      GetProcessPtr = Some (\<lambda>a s. if a = 4096 \<and> s = 1 then Some 1 else None)\<rparr>
   = Inr (True, \<lparr>class_type_or_name = Some (CompilerType (Some (ASTContext 0)) (Some 1)),
                 dynamic_address = Some 4096, value_type = eValueTypeLoadAddress\<rparr>)"
  by (simp add: GetDynamicTypeAndAddress_def FindEnumVariant_def GetEnumDiscriminantLocation_def
      IsValid_def deref_def option_enum_def LLDB_INVALID_ADDRESS_def
      option_heap_def option_variants_def MotokoEnum_FindEnumVariant_def FieldAt_def)

section \<open>Properties: the check on the owning type system\<close>

text \<open>
  C8, as the code has it. Each operation that takes a handle first tests that the
  handle is valid and that its type system is of the AST context class. On a handle
  that fails the test it returns the empty handle, false or the unchanged state. The
  test does not compare instances: on a handle owned by another instance of the class
  each operation does what it does on the same node owned by this instance.
\<close>

theorem handle_class_check:
  "(\<not> IsValid type \<or> dyn_cast_or_null (GetTypeSystem type) = None \<longrightarrow>
      AddFieldToStruct this h type name field_type byte_offset is_default d = Inr h \<and>
      AddTemplateParameter this h type param = Inr h \<and>
      FinishAggregateInitialization this h type = Inr h \<and>
      FindEnumVariant this h type d = Inr CompilerType_empty \<and>
      GetEnumDiscriminantLocation this h type = Inr None \<and>
      IsTupleType this h type = Inr False \<and>
      TypeHasDiscriminant this h type = Inr False \<and>
      MotokoASTContext_GetCABITypeDeclaration n this h type varname nm = Inr (False, None, nm)) \<and>
   (\<forall>j p.
      AddFieldToStruct this h (CompilerType (Some (ASTContext j)) p) name field_type byte_offset
          is_default d =
        AddFieldToStruct this h (CompilerType (Some (ASTContext this)) p) name field_type
          byte_offset is_default d \<and>
      AddTemplateParameter this h (CompilerType (Some (ASTContext j)) p) param =
        AddTemplateParameter this h (CompilerType (Some (ASTContext this)) p) param \<and>
      FinishAggregateInitialization this h (CompilerType (Some (ASTContext j)) p) =
        FinishAggregateInitialization this h (CompilerType (Some (ASTContext this)) p) \<and>
      FindEnumVariant this h (CompilerType (Some (ASTContext j)) p) d =
        FindEnumVariant this h (CompilerType (Some (ASTContext this)) p) d \<and>
      GetEnumDiscriminantLocation this h (CompilerType (Some (ASTContext j)) p) =
        GetEnumDiscriminantLocation this h (CompilerType (Some (ASTContext this)) p) \<and>
      IsTupleType this h (CompilerType (Some (ASTContext j)) p) =
        IsTupleType this h (CompilerType (Some (ASTContext this)) p) \<and>
      TypeHasDiscriminant this h (CompilerType (Some (ASTContext j)) p) =
        TypeHasDiscriminant this h (CompilerType (Some (ASTContext this)) p) \<and>
      MotokoASTContext_GetCABITypeDeclaration n this h (CompilerType (Some (ASTContext j)) p)
          varname nm =
        MotokoASTContext_GetCABITypeDeclaration n this h (CompilerType (Some (ASTContext this)) p)
          varname nm)"
  by (simp add: AddFieldToStruct_def AddTemplateParameter_def FinishAggregateInitialization_def
      FindEnumVariant_def GetEnumDiscriminantLocation_def IsTupleType_def TypeHasDiscriminant_def
      MotokoASTContext_GetCABITypeDeclaration_def IsValid_def
      cong: sum.case_cong option.case_cong)

theorem handle_class_check_witness:
  "FindEnumVariant 0 option_heap (CompilerType (Some (OtherTypeSystem 0)) (Some 3)) 1
      = Inr CompilerType_empty \<and>
   GetEnumDiscriminantLocation 0 option_heap (CompilerType (Some (OtherTypeSystem 0)) (Some 3))
      = Inr None"
  using handle_class_check
    [of "CompilerType (Some (OtherTypeSystem 0)) (Some 3)" 0 option_heap _ _ _ _ 1]
  by simp


text \<open>
  The claim as stated fails: asked through instance 0 about an enum whose handle is
  owned by instance 1, the lookup returns a valid payload type and the discriminant
  location is reported.
\<close>

theorem foreign_instance_counterexample:
  "FindEnumVariant 0 option_heap (CompilerType (Some (ASTContext 1)) (Some 3)) 1
      = Inr (CompilerType (Some (ASTContext 0)) (Some 1)) \<and>
   IsValid (CompilerType (Some (ASTContext 0)) (Some 1)) \<and>
   GetEnumDiscriminantLocation 0 option_heap (CompilerType (Some (ASTContext 1)) (Some 3))
      = Inr (Some (0, 1))"
  by (simp add: FindEnumVariant_def GetEnumDiscriminantLocation_def IsValid_def deref_def
      option_heap_def option_variants_def MotokoEnum_FindEnumVariant_def FieldAt_def)

section \<open>Properties: C declarations\<close>

lemma extends_refl [simp]: "extends nm nm"
  by (simp add: extends_def)







lemma to_string_32: "to_string 32 = ''32''"
  by code_simp

lemma to_string_8: "to_string 8 = ''8''"
  by code_simp




lemma GetFieldsCABITypeDeclaration_append:
  "GetFieldsCABITypeDeclaration n h nm (fs1 @ fs2) k =
     (case GetFieldsCABITypeDeclaration n h nm fs1 k of
        Inl x \<Rightarrow> Inl x
      | Inr (b1, nm1) \<Rightarrow>
         (case GetFieldsCABITypeDeclaration n h nm1 fs2
                 (k + length (filter (\<lambda>f. m_name f = []) fs1)) of
            Inl x \<Rightarrow> Inl x
          | Inr (b2, nm2) \<Rightarrow> Inr (b1 @ b2, nm2)))"
proof (induction fs1 arbitrary: nm k)
  case Nil
  show ?case by (simp split: sum.splits)
next
  case (Cons f fs1)
  show ?case
    by (simp add: Cons.IH split: sum.splits prod.splits)
qed


lemma option_variants_declaration:
  "(case GetFieldsCABITypeDeclaration (Suc (Suc 0)) option_heap
           (fresh_name_map\<lparr>counter := counter fresh_name_map + 1,
              name_map := (name_map fresh_name_map)
                 (3 \<mapsto> ''tag'' @ to_string (unat (counter fresh_name_map)))\<rparr>)
           option_variants 0 of
      Inl x \<Rightarrow> None
    | Inr (body, nm2) \<Rightarrow> Some (body, typedefs nm2)) =
   Some (''tag1 _None; tag2 _Some; '',
         ''  struct tag1{__INT32_TYPE__ _RUST$ENUM$DISR;  };'' @ [CHR 0x0A] @
         ''  struct tag2{__INT32_TYPE__ __0; __INT32_TYPE__ __1;  };'' @ [CHR 0x0A])"
  by code_simp





text \<open>
  C7. The definition emitted for an enum at its first encounter is a struct under the
  enum's tag; a field \<open>__discr\<close>, an integer of eight times the discriminant's byte
  size in bits, comes first exactly when the enum has at least two fields and the
  discriminant offset is 0; the declarations of the variants follow, in the order of
  the fields.
\<close>

theorem enum_discriminant_field:
  assumes "h p = Some (MotokoEnum a e)" and "name_map nm p = None"
    and "GetFieldsCABITypeDeclaration n h
           (nm\<lparr>counter := counter nm + 1,
               name_map := (name_map nm)(p \<mapsto> ''tag'' @ to_string (unat (counter nm)))\<rparr>)
           (m_fields a) 0 = Inr (body, nm2)"
  shows "GetCABITypeDeclaration (Suc n) h nm (Some p) v =
           Inr (''tag'' @ to_string (unat (counter nm)) @ '' '' @ v,
                nm2\<lparr>typedefs := typedefs nm2 @ ''struct '' @ ''tag''
                      @ to_string (unat (counter nm)) @ ''{ ''
                      @ (if 1 < length (m_fields a) \<and> m_discr_offset e = 0
                         then ''int'' @ to_string (unat (8 * m_discr_byte_size e))
                              @ ''_t __discr; ''
                         else [])
                      @ body @ '' };'' @ [CHR 0x0A]\<rparr>) \<and>
         (\<forall>fs1 fs2. m_fields a = fs1 @ fs2 \<longrightarrow>
            (\<exists>b1 nm1 b2.
               GetFieldsCABITypeDeclaration n h
                 (nm\<lparr>counter := counter nm + 1,
                     name_map := (name_map nm)(p \<mapsto> ''tag'' @ to_string (unat (counter nm)))\<rparr>)
                 fs1 0 = Inr (b1, nm1) \<and>
               GetFieldsCABITypeDeclaration n h nm1 fs2
                 (length (filter (\<lambda>f. m_name f = []) fs1)) = Inr (b2, nm2) \<and>
               body = b1 @ b2))"
proof (intro conjI allI impI)
  show "GetCABITypeDeclaration (Suc n) h nm (Some p) v =
           Inr (''tag'' @ to_string (unat (counter nm)) @ '' '' @ v,
                nm2\<lparr>typedefs := typedefs nm2 @ ''struct '' @ ''tag''
                      @ to_string (unat (counter nm)) @ ''{ ''
                      @ (if 1 < length (m_fields a) \<and> m_discr_offset e = 0
                         then ''int'' @ to_string (unat (8 * m_discr_byte_size e))
                              @ ''_t __discr; ''
                         else [])
                      @ body @ '' };'' @ [CHR 0x0A]\<rparr>)"
    using assms by (simp add: deref_def Tag_def Let_def FieldCount_def)
next
  fix fs1 fs2 assume "m_fields a = fs1 @ fs2"
  with assms(3) show "\<exists>b1 nm1 b2.
               GetFieldsCABITypeDeclaration n h
                 (nm\<lparr>counter := counter nm + 1,
                     name_map := (name_map nm)(p \<mapsto> ''tag'' @ to_string (unat (counter nm)))\<rparr>)
                 fs1 0 = Inr (b1, nm1) \<and>
               GetFieldsCABITypeDeclaration n h nm1 fs2
                 (length (filter (\<lambda>f. m_name f = []) fs1)) = Inr (b2, nm2) \<and>
               body = b1 @ b2"
    by (auto simp: GetFieldsCABITypeDeclaration_append split: sum.splits)
qed
theorem enum_discriminant_field_witness:
  "\<exists>nm'. GetCABITypeDeclaration (Suc (Suc (Suc 0))) option_heap fresh_name_map (Some 3) ''v'' =
           Inr (''tag0 v'', nm') \<and>
         typedefs nm' =
           ''  struct tag1{__INT32_TYPE__ _RUST$ENUM$DISR;  };'' @ [CHR 0x0A] @
           ''  struct tag2{__INT32_TYPE__ __0; __INT32_TYPE__ __1;  };'' @ [CHR 0x0A] @
           ''struct tag0{ int8_t __discr; tag1 _None; tag2 _Some;  };'' @ [CHR 0x0A]"
proof -
  let ?a = "\<lparr>Name = ''Option<i32>'', m_byte_size = 8, m_fields = option_variants,
             m_has_discriminant = False, m_template_args = []\<rparr>"
  let ?e = "\<lparr>m_discr_offset = 0, m_discr_byte_size = 1, m_default = - 1,
             m_discriminants = [0 \<mapsto> 0, 1 \<mapsto> 1]\<rparr>"
  have h: "option_heap 3 = Some (MotokoEnum ?a ?e)"
    by (simp add: option_heap_def)
  have u: "name_map fresh_name_map 3 = None"
    by (simp add: fresh_name_map_def)
  from option_variants_declaration obtain nm2 where
    f: "GetFieldsCABITypeDeclaration (Suc (Suc 0)) option_heap
           (fresh_name_map\<lparr>counter := counter fresh_name_map + 1,
              name_map := (name_map fresh_name_map)
                 (3 \<mapsto> ''tag'' @ to_string (unat (counter fresh_name_map)))\<rparr>)
           (m_fields ?a) 0 = Inr (''tag1 _None; tag2 _Some; '', nm2)"
    and t: "typedefs nm2 =
         ''  struct tag1{__INT32_TYPE__ _RUST$ENUM$DISR;  };'' @ [CHR 0x0A] @
         ''  struct tag2{__INT32_TYPE__ __0; __INT32_TYPE__ __1;  };'' @ [CHR 0x0A]"
    by (auto split: sum.splits)
  have l: "length option_variants = 2"
    by (simp add: option_variants_def)
  from enum_discriminant_field [OF h u f, of "''v''"] t l show ?thesis
    by (simp add: fresh_name_map_def to_string_0 to_string_8)
qed

end
